theory Spec2Isabelle
  imports Main "HOL-Library.Sublist" "HOL-Library.Word"
begin

section \<open>Python string primitives used by the drives manager\<close>

text \<open>
  \<^verbatim>\<open>str.strip(chars)\<close> removes every leading and every trailing character that belongs
  to \<open>chars\<close>.  The set of characters is given as a predicate.
\<close>

definition strip_where :: "('a \<Rightarrow> bool) \<Rightarrow> 'a list \<Rightarrow> 'a list" where
  "strip_where P s = rev (dropWhile P (rev (dropWhile P s)))"

text \<open>\<^verbatim>\<open>path.strip('/')\<close>\<close>

definition strip_slash :: "string \<Rightarrow> string" where
  "strip_slash path = strip_where (\<lambda>c. c = CHR ''/'') path"

text \<open>
  The first lines of \<^verbatim>\<open>get_contents\<close>:
  \<^verbatim>\<open>
  if path == '/':
      path = ''
  else:
      path = path.strip('/')
  \<close>
\<close>

definition normalize_path :: "string \<Rightarrow> string" where
  "normalize_path path = (if path = ''/'' then '''' else strip_slash path)"

section \<open>Values, exceptions and configuration\<close>

type_synonym bytes = "8 word list"

text \<open>Python values decoded from or encoded to JSON (request bodies, page contents).\<close>

datatype json =
    JNull
  | JBool bool
  | JNum int
  | JStr string
  | JList "json list"
  | JDict "(string \<times> json) list"

text \<open>
  The exceptions the manager raises or catches.  \<open>HTTPError code reason cause\<close> is
  \<^verbatim>\<open>tornado.web.HTTPError(status_code=code, reason=f"{reason}{cause}")\<close>: the text of
  the f-string before the interpolated exception, and the interpolated exception if there
  is one.  \<open>NotFoundError\<close> and \<open>LibraryError\<close> are raised inside the object-store and
  HTTP libraries only.
\<close>

datatype exn =
    HTTPError nat string "exn option"
  | KeyError string
  | UnboundLocalError string
  | AttributeError string
  | TypeError string
  | ValueError string
  | JSONDecodeError
  | UnicodeDecodeError
  | HTTPClientError nat "bytes option option"
  | NotFoundError string
  | LibraryError string

fun status_code :: "exn \<Rightarrow> nat option" where
  "status_code (HTTPError code _ _) = Some code"
| "status_code _ = None"

text \<open>\<^verbatim>\<open>httpx.codes\<close> and \<^verbatim>\<open>http.HTTPStatus\<close>\<close>

definition BAD_REQUEST :: nat where "BAD_REQUEST = 400"
definition NOT_FOUND :: nat where "NOT_FOUND = 404"
definition CONFLICT :: nat where "CONFLICT = 409"
definition INTERNAL_SERVER_ERROR :: nat where "INTERNAL_SERVER_ERROR = 500"

text \<open>
  \<^verbatim>\<open>DrivesConfig\<close>: the credentials may be unset (\<^verbatim>\<open>None\<close>); provider and base URL
  are strings.
\<close>

record config =
  provider :: string
  access_key_id :: "string option"
  secret_access_key :: "string option"
  session_token :: "string option"
  api_base_url :: string

text \<open>Python truthiness of an optional string: \<^verbatim>\<open>None\<close> and \<^verbatim>\<open>''\<close> are false.\<close>

fun truthy :: "string option \<Rightarrow> bool" where
  "truthy None = False"
| "truthy (Some s) = (s \<noteq> [])"

section \<open>Object stores\<close>

text \<open>
  A store handle as \<^verbatim>\<open>mount_drive\<close> builds it: the URL given to \<^verbatim>\<open>from_url\<close> and,
  for S3, the credentials and region of its \<^verbatim>\<open>config\<close> argument.
\<close>

datatype store =
    S3Store string "string option" "string option" string
  | GCSStore string
  | HTTPStore string

record binding =
  store :: store
  location :: string

text \<open>One row of a listing batch, and the result of \<^verbatim>\<open>head\<close>.\<close>

record object_meta =
  m_path :: string
  m_last_modified :: nat
  m_size :: nat

text \<open>
  What \<^verbatim>\<open>put_async\<close> is given: a byte string, a \<^verbatim>\<open>BytesIO\<close> buffer positioned at 0, or
  the caller's value untouched.
\<close>

datatype payload = Raw bytes | Stream bytes | Value json

datatype put_mode = Overwrite | Create

text \<open>The operations issued to the object store (obstore) and to the S3 client (boto3).\<close>

datatype call =
    ObsList store string
  | ObsGet store string
  | ObsHead store string
  | ObsPut store string payload put_mode
  | ObsDelete store string
  | ObsCopy store string string
  | ObsRename store string string
  | S3PutObject string string string
  | S3ListObjectsV2 string string string

text \<open>
  The object-store libraries are collaborators of the manager: every operation takes the
  remote state \<open>'w\<close> and returns its result, or the exception it raises, and the new
  remote state.  A listing is the sequence of its batches, a download the sequence of its
  chunks; a stream that fails part-way is the exception alone, since the manager only
  keeps what it read in local variables.  \<open>s3_list_objects_v2\<close> returns whether the
  answer has a \<^verbatim>\<open>Contents\<close> key.
\<close>

record 'w backend =
  from_url :: "store \<Rightarrow> exn option"
  obs_list :: "store \<Rightarrow> string \<Rightarrow> 'w \<Rightarrow> (exn + object_meta list list) \<times> 'w"
  obs_get :: "store \<Rightarrow> string \<Rightarrow> 'w \<Rightarrow> (exn + bytes list) \<times> 'w"
  obs_head :: "store \<Rightarrow> string \<Rightarrow> 'w \<Rightarrow> (exn + object_meta) \<times> 'w"
  obs_put :: "store \<Rightarrow> string \<Rightarrow> payload \<Rightarrow> put_mode \<Rightarrow> 'w \<Rightarrow> (exn + unit) \<times> 'w"
  obs_delete :: "store \<Rightarrow> string \<Rightarrow> 'w \<Rightarrow> (exn + unit) \<times> 'w"
  obs_copy :: "store \<Rightarrow> string \<Rightarrow> string \<Rightarrow> 'w \<Rightarrow> (exn + unit) \<times> 'w"
  obs_rename :: "store \<Rightarrow> string \<Rightarrow> string \<Rightarrow> 'w \<Rightarrow> (exn + unit) \<times> 'w"
  s3_put_object :: "string \<Rightarrow> string \<Rightarrow> string \<Rightarrow> 'w \<Rightarrow> (exn + unit) \<times> 'w"
  s3_list_objects_v2 :: "string \<Rightarrow> string \<Rightarrow> string \<Rightarrow> 'w \<Rightarrow> (exn + bool) \<times> 'w"

text \<open>Standard-library codecs, taken as they are.\<close>

record codec =
  json_dumps_indent2 :: "json \<Rightarrow> string"
  utf8_encode :: "string \<Rightarrow> bytes"
  utf8_decode :: "bytes \<Rightarrow> string option"
  b64encode :: "bytes \<Rightarrow> string"
  b64decode :: "string \<Rightarrow> bytes option"
  isoformat :: "nat \<Rightarrow> string"

section \<open>The manager's state\<close>

text \<open>
  \<open>content_managers\<close> is \<^verbatim>\<open>self._content_managers\<close> (no path of the code stores
  \<^verbatim>\<open>None\<close> in it), \<open>s3_clients\<close> the keys of \<^verbatim>\<open>self._s3_clients\<close>, \<open>world\<close> the remote
  state and \<open>calls\<close> the log of the operations issued to the libraries so far.
\<close>

record 'w manager =
  content_managers :: "string \<rightharpoonup> binding"
  s3_clients :: "string list"
  world :: 'w
  calls :: "call list"

type_synonym ('a, 'w) io = "'w manager \<Rightarrow> (exn + 'a) \<times> 'w manager"

definition ret :: "'a \<Rightarrow> ('a, 'w) io" where
  "ret a st = (Inr a, st)"

definition raise :: "exn \<Rightarrow> ('a, 'w) io" where
  "raise e st = (Inl e, st)"

definition bind :: "('a, 'w) io \<Rightarrow> ('a \<Rightarrow> ('b, 'w) io) \<Rightarrow> ('b, 'w) io" where
  "bind m f st = (case m st of (Inl e, st') \<Rightarrow> (Inl e, st') | (Inr a, st') \<Rightarrow> f a st')"

text \<open>
  \<^verbatim>\<open>try: ... except Exception as e: raise tornado.web.HTTPError(status_code=code,
  reason=f"{reason}{e}")\<close>
\<close>

definition try_except :: "nat \<Rightarrow> string \<Rightarrow> ('a, 'w) io \<Rightarrow> ('a, 'w) io" where
  "try_except code reason m st =
     (case m st of
        (Inl e, st') \<Rightarrow> (Inl (HTTPError code reason (Some e)), st')
      | (Inr a, st') \<Rightarrow> (Inr a, st'))"

text \<open>\<^verbatim>\<open>self._content_managers[drive_name]\<close>\<close>

definition resolve :: "string \<Rightarrow> (binding, 'w) io" where
  "resolve drive_name st =
     (case content_managers st drive_name of
        None \<Rightarrow> (Inl (KeyError drive_name), st)
      | Some b \<Rightarrow> (Inr b, st))"

text \<open>A library operation, logged and run on the remote state.\<close>

definition perform :: "call \<Rightarrow> ('w \<Rightarrow> (exn + 'a) \<times> 'w) \<Rightarrow> ('a, 'w) io" where
  "perform c f st =
     (case f (world st) of (r, w') \<Rightarrow> (r, st\<lparr>world := w', calls := calls st @ [c]\<rparr>))"

section \<open>Drive registry\<close>

definition make_store :: "'w backend \<Rightarrow> config \<Rightarrow> string \<Rightarrow> string \<Rightarrow> string \<Rightarrow> exn + store" where
  "make_store B cfg drive_name prov region =
     (if prov = ''s3'' then
        (let s = S3Store (''s3://'' @ drive_name @ ''/'') (access_key_id cfg)
                   (secret_access_key cfg) region
         in case from_url B s of Some e \<Rightarrow> Inl e | None \<Rightarrow> Inr s)
      else if prov = ''gcs'' then
        (let s = GCSStore (''gs://'' @ drive_name @ ''/'')
         in case from_url B s of Some e \<Rightarrow> Inl e | None \<Rightarrow> Inr s)
      else if prov = ''http'' then
        (let s = HTTPStore drive_name
         in case from_url B s of Some e \<Rightarrow> Inl e | None \<Rightarrow> Inr s)
      else Inl (UnboundLocalError ''store''))"

definition mount_drive ::
  "'w backend \<Rightarrow> config \<Rightarrow> string \<Rightarrow> string \<Rightarrow> string \<Rightarrow> (unit, 'w) io" where
  "mount_drive B cfg drive_name prov region =
     try_except BAD_REQUEST ''The following error occured when mouting the drive: ''
       (\<lambda>st. if content_managers st drive_name = None then
               (case make_store B cfg drive_name prov region of
                  Inl e \<Rightarrow> (Inl e, st)
                | Inr s \<Rightarrow>
                    (Inr (), st\<lparr>content_managers :=
                       (content_managers st)(drive_name \<mapsto> \<lparr>store = s, location = region\<rparr>)\<rparr>))
             else (Inl (HTTPError CONFLICT ''Drive already mounted.'' None), st))"

definition unmount_drive :: "string \<Rightarrow> (unit, 'w) io" where
  "unmount_drive drive_name st =
     (if drive_name \<in> dom (content_managers st) then
        (Inr (), st\<lparr>content_managers := (content_managers st)(drive_name := None)\<rparr>)
      else (Inl (HTTPError NOT_FOUND ''Drive is not mounted or doesn't exist.'' None), st))"

section \<open>Content operations\<close>

text \<open>\<^verbatim>\<open>os.path.basename\<close> and the second component of \<^verbatim>\<open>os.path.splitext\<close> (POSIX).\<close>

definition basename :: "string \<Rightarrow> string" where
  "basename p = rev (takeWhile (\<lambda>c. c \<noteq> CHR ''/'') (rev p))"

definition splitext_ext :: "string \<Rightarrow> string" where
  "splitext_ext p =
     (let name = basename p in
      if CHR ''.'' \<in> set name then
        (let stem = rev (tl (dropWhile (\<lambda>c. c \<noteq> CHR ''.'') (rev name)));
             ext = CHR ''.'' # rev (takeWhile (\<lambda>c. c \<noteq> CHR ''.'') (rev name))
         in if list_ex (\<lambda>c. c \<noteq> CHR ''.'') stem then ext else [])
      else [])"

text \<open>The response dictionaries: a listing row, and the description of one object.\<close>

record entry =
  e_path :: string
  e_last_modified :: string
  e_size :: nat

record info =
  i_path :: string
  i_content :: "json option"
  i_last_modified :: string
  i_size :: nat

datatype data = Listing "entry list" | File info

definition to_entry :: "codec \<Rightarrow> object_meta \<Rightarrow> entry" where
  "to_entry L obj =
     \<lparr>e_path = m_path obj, e_last_modified = isoformat L (m_last_modified obj),
      e_size = m_size obj\<rparr>"

text \<open>
  The loop over the listing batches: \<open>(data, isDir, emptyDir)\<close>.  A batch is true when
  it has rows.
\<close>

fun list_loop ::
  "codec \<Rightarrow> object_meta list list \<Rightarrow> entry list \<times> bool \<times> bool \<Rightarrow> entry list \<times> bool \<times> bool" where
  "list_loop L [] acc = acc"
| "list_loop L (batch # rest) (rows, isDir, emptyDir) =
     (let flags = (if isDir = False \<and> batch \<noteq> [] then (True, False) else (isDir, emptyDir))
      in list_loop L rest (rows @ map (to_entry L) batch, flags))"

text \<open>The loop over the chunks of a download: \<open>(content, emptyDir)\<close>.\<close>

fun chunk_loop :: "bytes list \<Rightarrow> bytes \<times> bool \<Rightarrow> bytes \<times> bool" where
  "chunk_loop [] acc = acc"
| "chunk_loop (buf # rest) (content, emptyDir) =
     chunk_loop rest (content @ buf, (if emptyDir = True \<and> buf \<noteq> [] then False else emptyDir))"

definition media_exts :: "string list" where
  "media_exts = [''.pdf'', ''.svg'', ''.tif'', ''.tiff'', ''.jpg'', ''.jpeg'', ''.gif'',
     ''.png'', ''.bmp'', ''.webp'']"

definition ext_list :: "string list" where
  "ext_list = [''.R'', ''.bmp'', ''.csv'', ''.gif'', ''.html'', ''.ipynb'', ''.jl'', ''.jpeg'',
     ''.jpg'', ''.json'', ''.jsonl'', ''.md'', ''.ndjson'', ''.pdf'', ''.png'', ''.py'', ''.svg'',
     ''.tif'', ''.tiff'', ''.tsv'', ''.txt'', ''.webp'', ''.yaml'', ''.yml'']"

text \<open>
  \<^verbatim>\<open>self._s3_clients\<close> and \<^verbatim>\<open>self._s3_session\<close> exist only when the constructor ran
  with provider \<^verbatim>\<open>s3\<close>; a client for the location is created once and cached.
\<close>

definition s3_client :: "config \<Rightarrow> string \<Rightarrow> (unit, 'w) io" where
  "s3_client cfg loc st =
     (if provider cfg = ''s3'' then
        (Inr (), st\<lparr>s3_clients :=
           (if loc \<in> set (s3_clients st) then s3_clients st else s3_clients st @ [loc])\<rparr>)
      else (Inl (AttributeError ''_s3_clients''), st))"

definition check_object :: "'w backend \<Rightarrow> config \<Rightarrow> string \<Rightarrow> string \<Rightarrow> (bool, 'w) io" where
  "check_object B cfg drive_name path =
     try_except BAD_REQUEST ''The following error occured when retriving the drive location: ''
       (bind (resolve drive_name) (\<lambda>b.
        bind (s3_client cfg (location b)) (\<lambda>_.
        perform (S3ListObjectsV2 (location b) drive_name (path @ ''/''))
          (s3_list_objects_v2 B (location b) drive_name (path @ ''/'')))))"

definition create_empty_directory ::
  "'w backend \<Rightarrow> config \<Rightarrow> string \<Rightarrow> string \<Rightarrow> (unit, 'w) io" where
  "create_empty_directory B cfg drive_name path =
     try_except BAD_REQUEST ''The following error occured when creating the directory: ''
       (bind (resolve drive_name) (\<lambda>b.
        bind (s3_client cfg (location b)) (\<lambda>_.
        perform (S3PutObject (location b) drive_name (path @ ''/''))
          (s3_put_object B (location b) drive_name (path @ ''/'')))))"

text \<open>The file branch of \<^verbatim>\<open>get_contents\<close>: download, head, encode for transport.\<close>

definition read_object ::
  "'w backend \<Rightarrow> codec \<Rightarrow> string \<Rightarrow> string \<Rightarrow> bool \<Rightarrow> (data \<times> bool, 'w) io" where
  "read_object B L drive_name path emptyDir =
     bind (resolve drive_name) (\<lambda>b.
     bind (perform (ObsGet (store b) path) (obs_get B (store b) path)) (\<lambda>chunks.
     (case chunk_loop chunks ([], emptyDir) of (content, emptyDir') \<Rightarrow>
     bind (resolve drive_name) (\<lambda>b.
     bind (perform (ObsHead (store b) path) (obs_head B (store b) path)) (\<lambda>metadata.
     bind (if splitext_ext path \<in> set media_exts then ret (b64encode L content)
           else (case utf8_decode L content of
                   None \<Rightarrow> raise UnicodeDecodeError
                 | Some text \<Rightarrow> ret text)) (\<lambda>processed_content.
     ret (File \<lparr>i_path = path, i_content = Some (JStr processed_content),
                i_last_modified = isoformat L (m_last_modified metadata),
                i_size = m_size metadata\<rparr>, emptyDir')))))))"

definition get_contents ::
  "'w backend \<Rightarrow> codec \<Rightarrow> config \<Rightarrow> string \<Rightarrow> string \<Rightarrow> (data, 'w) io" where
  "get_contents B L cfg drive_name path0 =
     (let path = normalize_path path0 in
      try_except BAD_REQUEST ''The following error occured when retrieving the contents: ''
        (bind (resolve drive_name) (\<lambda>b.
         bind (perform (ObsList (store b) path) (obs_list B (store b) path)) (\<lambda>batches.
         (case list_loop L batches ([], False, True) of (rows, isDir, emptyDir) \<Rightarrow>
         bind (if isDir = False \<and> path \<noteq> [] then read_object B L drive_name path emptyDir
               else ret (Listing rows, emptyDir)) (\<lambda>(data, emptyDir).
         if emptyDir = True then
           (let object_name = basename path;
                data' = (if List.find (\<lambda>c. c = CHR ''.'') object_name = None
                            \<or> count_list ext_list (splitext_ext object_name) = 0
                         then Listing [] else data)
            in bind (check_object B cfg drive_name path) (\<lambda>check. ret data'))
         else ret data))))))"

definition new_file ::
  "'w backend \<Rightarrow> codec \<Rightarrow> config \<Rightarrow> string \<Rightarrow> string \<Rightarrow> bool \<Rightarrow> (info, 'w) io" where
  "new_file B L cfg drive_name path0 is_dir =
     try_except BAD_REQUEST ''The following error occured when creating the object: ''
       (let path = strip_slash path0 in
        bind (if is_dir = False \<or> provider cfg \<noteq> ''s3'' then
                bind (resolve drive_name) (\<lambda>b.
                  perform (ObsPut (store b) path (Raw []) Overwrite)
                    (obs_put B (store b) path (Raw []) Overwrite))
              else create_empty_directory B cfg drive_name path) (\<lambda>_.
        bind (resolve drive_name) (\<lambda>b.
        bind (perform (ObsHead (store b) path) (obs_head B (store b) path)) (\<lambda>metadata.
        ret \<lparr>i_path = path, i_content = Some (JStr []),
             i_last_modified = isoformat L (m_last_modified metadata),
             i_size = m_size metadata\<rparr>))))"

text \<open>
  The slices of \<^verbatim>\<open>save_file\<close>:
  \<^verbatim>\<open>for offset in range(0, len(byte_characters), 512): byte_characters[offset:offset + 512]\<close>
\<close>

definition range_step :: "nat \<Rightarrow> nat \<Rightarrow> nat list" where
  "range_step stop step = map (\<lambda>i. i * step) [0 ..< (stop + step - 1) div step]"

definition byte_arrays :: "bytes \<Rightarrow> bytes list" where
  "byte_arrays byte_characters =
     map (\<lambda>offset. take 512 (drop offset byte_characters))
       (range_step (length byte_characters) 512)"

text \<open>
  The format negotiation of \<^verbatim>\<open>save_file\<close>.  \<^verbatim>\<open>base64.b64decode\<close> wants a string,
  \<^verbatim>\<open>content.encode\<close> exists on strings only.
\<close>

definition format_content ::
  "codec \<Rightarrow> json \<Rightarrow> string \<Rightarrow> string \<Rightarrow> string \<Rightarrow> exn + payload" where
  "format_content L content options_format content_format content_type =
     (if options_format = ''json'' then
        Inr (Raw (utf8_encode L (json_dumps_indent2 L content)))
      else if options_format = ''base64'' \<and> (content_format = ''base64'' \<or> content_type = ''PDF'') then
        (case content of
           JStr s \<Rightarrow>
             (case b64decode L s of
                None \<Rightarrow> Inl (ValueError ''b64decode'')
              | Some byte_characters \<Rightarrow> Inr (Stream (concat (byte_arrays byte_characters))))
         | _ \<Rightarrow> Inl (TypeError ''b64decode''))
      else if options_format = ''text'' then
        (case content of
           JStr s \<Rightarrow> Inr (Raw (utf8_encode L s))
         | _ \<Rightarrow> Inl (AttributeError ''encode''))
      else Inr (Value content))"

definition save_file ::
  "'w backend \<Rightarrow> codec \<Rightarrow> string \<Rightarrow> string \<Rightarrow> json \<Rightarrow> string \<Rightarrow> string \<Rightarrow> string \<Rightarrow> (info, 'w) io" where
  "save_file B L drive_name path0 content options_format content_format content_type =
     try_except BAD_REQUEST ''The following error occured when saving the file: ''
       (let path = strip_slash path0 in
        bind (case format_content L content options_format content_format content_type of
                Inl e \<Rightarrow> raise e | Inr formatted_content \<Rightarrow> ret formatted_content)
          (\<lambda>formatted_content.
        bind (resolve drive_name) (\<lambda>b.
        bind (perform (ObsPut (store b) path formatted_content Overwrite)
               (obs_put B (store b) path formatted_content Overwrite)) (\<lambda>_.
        bind (resolve drive_name) (\<lambda>b.
        bind (perform (ObsHead (store b) path) (obs_head B (store b) path)) (\<lambda>metadata.
        ret \<lparr>i_path = path, i_content = Some content,
             i_last_modified = isoformat L (m_last_modified metadata),
             i_size = m_size metadata\<rparr>))))))"

definition rename_file ::
  "'w backend \<Rightarrow> codec \<Rightarrow> string \<Rightarrow> string \<Rightarrow> string \<Rightarrow> (info, 'w) io" where
  "rename_file B L drive_name path0 new_path =
     try_except BAD_REQUEST ''The following error occured when renaming the object: ''
       (let path = strip_slash path0 in
        bind (resolve drive_name) (\<lambda>b.
        bind (perform (ObsRename (store b) path new_path)
               (obs_rename B (store b) path new_path)) (\<lambda>_.
        bind (resolve drive_name) (\<lambda>b.
        bind (perform (ObsHead (store b) new_path) (obs_head B (store b) new_path)) (\<lambda>metadata.
        ret \<lparr>i_path = new_path, i_content = None,
             i_last_modified = isoformat L (m_last_modified metadata),
             i_size = m_size metadata\<rparr>)))))"

definition delete_file :: "'w backend \<Rightarrow> string \<Rightarrow> string \<Rightarrow> (unit, 'w) io" where
  "delete_file B drive_name path0 =
     try_except BAD_REQUEST ''The following error occured when deleting the object: ''
       (let path = strip_slash path0 in
        bind (resolve drive_name) (\<lambda>b.
        perform (ObsDelete (store b) path) (obs_delete B (store b) path)))"

text \<open>\<^verbatim>\<open>check_file\<close> drops the cause: its handler raises a fixed message.\<close>

definition check_file :: "'w backend \<Rightarrow> string \<Rightarrow> string \<Rightarrow> (unit, 'w) io" where
  "check_file B drive_name path0 st =
     (case (let path = strip_slash path0 in
            bind (resolve drive_name) (\<lambda>b.
            perform (ObsHead (store b) path) (obs_head B (store b) path))) st of
        (Inl e, st') \<Rightarrow>
          (Inl (HTTPError NOT_FOUND ''Object does not already exist within drive.'' None), st')
      | (Inr _, st') \<Rightarrow> (Inr (), st'))"

definition copy_file ::
  "'w backend \<Rightarrow> codec \<Rightarrow> string \<Rightarrow> string \<Rightarrow> string \<Rightarrow> (info, 'w) io" where
  "copy_file B L drive_name path0 to_path =
     try_except BAD_REQUEST ''The following error occured when copying the: ''
       (let path = strip_slash path0 in
        bind (resolve drive_name) (\<lambda>b.
        bind (perform (ObsCopy (store b) path to_path)
               (obs_copy B (store b) path to_path)) (\<lambda>_.
        bind (resolve drive_name) (\<lambda>b.
        bind (perform (ObsHead (store b) to_path) (obs_head B (store b) to_path)) (\<lambda>metadata.
        ret \<lparr>i_path = to_path, i_content = None,
             i_last_modified = isoformat L (m_last_modified metadata),
             i_size = m_size metadata\<rparr>)))))"

section \<open>The provider client\<close>

text \<open>
  \<^verbatim>\<open>str.split(sep)\<close> for a one-character separator: the pieces between the separators,
  at least one piece.
\<close>

fun split_on :: "char \<Rightarrow> string \<Rightarrow> string list" where
  "split_on sep [] = [[]]"
| "split_on sep (c # cs) =
     (if c = sep then [] # split_on sep cs
      else (case split_on sep cs of
              [] \<Rightarrow> [[c]]
            | piece # pieces \<Rightarrow> (c # piece) # pieces))"

text \<open>
  \<^verbatim>\<open>str.strip()\<close> without argument removes whitespace; below code point 256 these are
  the characters 9 to 13, 28 to 32, 133 and 160.  \<^verbatim>\<open>v.strip('"')\<close> removes double quotes.
\<close>

definition is_space :: "char \<Rightarrow> bool" where
  "is_space c = (c \<in> set [CHR 0x09, CHR 0x0A, CHR 0x0B, CHR 0x0C, CHR 0x0D, CHR 0x1C, CHR 0x1D,
     CHR 0x1E, CHR 0x1F, CHR 0x20, CHR 0x85, CHR 0xA0])"

definition strip_space :: "string \<Rightarrow> string" where
  "strip_space s = strip_where is_space s"

definition strip_quote :: "string \<Rightarrow> string" where
  "strip_quote s = strip_where (\<lambda>c. c = CHR 0x22) s"

text \<open>
  The dictionary comprehension over the parameters of one entry of the \<^verbatim>\<open>Link\<close> header:
  \<^verbatim>\<open>
  {k.strip(): v.strip().strip('"') for k, v in map(lambda s: s.strip().split("="), args[1:])}
  \<close>
  Unpacking into \<^verbatim>\<open>k, v\<close> raises \<^verbatim>\<open>ValueError\<close> unless the split has exactly two
  pieces.  The pairs are kept in order; a later key wins in the dictionary.
\<close>

fun link_metadata :: "string list \<Rightarrow> exn + (string \<times> string) list" where
  "link_metadata [] = Inr []"
| "link_metadata (s # rest) =
     (case split_on CHR ''='' (strip_space s) of
        [k, v] \<Rightarrow>
          (case link_metadata rest of
             Inl e \<Rightarrow> Inl e
           | Inr metadata \<Rightarrow> Inr ((strip_space k, strip_quote (strip_space v)) # metadata))
      | _ \<Rightarrow> Inl (ValueError ''unpack''))"

text \<open>
  The loop over the entries of the header; \<^verbatim>\<open>data[1:-1]\<close> drops the angle brackets.
  \<^verbatim>\<open>
  for e in link.split(","):
      args = e.strip().split(";")
      data = args[0]
      metadata = {...}
      if metadata.get("rel", "") == "next":
          next_url = data[1:-1]
          break
  \<close>
\<close>

fun next_link_loop :: "string list \<Rightarrow> exn + string option" where
  "next_link_loop [] = Inr None"
| "next_link_loop (e # es) =
     (let args = split_on CHR '';'' (strip_space e);
          data = hd args
      in case link_metadata (tl args) of
           Inl x \<Rightarrow> Inl x
         | Inr metadata \<Rightarrow>
             if map_of (rev metadata) ''rel'' = Some ''next'' then Inr (Some (butlast (tl data)))
             else next_link_loop es)"

definition next_link :: "string option \<Rightarrow> exn + string option" where
  "next_link link =
     (case link of
        None \<Rightarrow> Inr None
      | Some l \<Rightarrow> next_link_loop (split_on CHR '','' l))"

text \<open>
  A request as \<^verbatim>\<open>tornado.httpclient.HTTPRequest(url, method, body, headers)\<close> is given
  it, and what the manager reads of a response: the body and the \<^verbatim>\<open>Link\<close> header.
\<close>

record http_request =
  rq_url :: string
  rq_method :: string
  rq_body :: "string option"
  rq_headers :: "(string \<times> string) list option"

record http_response =
  rs_body :: bytes
  rs_link :: "string option"

text \<open>
  The HTTP client and the library functions \<^verbatim>\<open>_call_provider\<close> calls, taken as they
  are: \<open>fetch\<close> is \<^verbatim>\<open>self._client.fetch\<close>, running on the remote state \<open>'w\<close>;
  \<open>json_loads\<close> is \<open>None\<close> for \<^verbatim>\<open>JSONDecodeError\<close>; \<open>py_str\<close> and \<open>exn_str\<close> are
  \<^verbatim>\<open>str\<close> on a decoded value and on an exception.  Query values are kept as text.
\<close>

record 'w http =
  fetch :: "http_request \<Rightarrow> 'w \<Rightarrow> (exn + http_response) \<times> 'w"
  json_encode :: "json \<Rightarrow> string"
  json_loads :: "string \<Rightarrow> json option"
  url_path_join :: "string \<Rightarrow> string \<Rightarrow> string"
  url_concat :: "string \<Rightarrow> (string \<times> string) list \<Rightarrow> string"
  str_lower :: "string \<Rightarrow> string"
  str_upper :: "string \<Rightarrow> string"
  py_str :: "json \<Rightarrow> string"
  exn_str :: "exn \<Rightarrow> string"

text \<open>The remote state and the requests handed to \<open>fetch\<close> so far.\<close>

record 'w client =
  remote :: 'w
  sent :: "http_request list"

text \<open>\<^verbatim>\<open>d[k] = v\<close> on a dictionary kept in insertion order.\<close>

fun dict_set :: "'k \<Rightarrow> 'v \<Rightarrow> ('k \<times> 'v) list \<Rightarrow> ('k \<times> 'v) list" where
  "dict_set k v [] = [(k, v)]"
| "dict_set k v ((k', v') # rest) =
     (if k' = k then (k, v) # rest else (k', v') # dict_set k v rest)"

text \<open>The three credential checks that open \<^verbatim>\<open>_call_provider\<close>, in their order.\<close>

definition missing_credential :: "config \<Rightarrow> exn option" where
  "missing_credential cfg =
     (if \<not> truthy (session_token cfg) then
        Some (HTTPError BAD_REQUEST
          ''No session token specified. Please set DriversConfig.session_token in your user jupyter_server_config file.''
          None)
      else if \<not> truthy (access_key_id cfg) then
        Some (HTTPError BAD_REQUEST
          ''No access key id specified. Please set DriversConfig.access_key_id in your user jupyter_server_config file.''
          None)
      else if \<not> truthy (secret_access_key cfg) then
        Some (HTTPError BAD_REQUEST
          ''No secret access key specified. Please set DriversConfig.secret_access_key in your user jupyter_server_config file.''
          None)
      else None)"

text \<open>
  The URL a call asks for: joined to the base URL unless it starts with it or with
  \<^verbatim>\<open>http:\<close> or \<^verbatim>\<open>https:\<close>, then extended with the query arguments if there are any.
\<close>

definition absolute_url :: "'w http \<Rightarrow> config \<Rightarrow> string \<Rightarrow> string" where
  "absolute_url H cfg url =
     (if \<not> prefix (api_base_url cfg) url \<and> \<not> (prefix ''http:'' url \<or> prefix ''https:'' url)
      then url_path_join H (api_base_url cfg) url else url)"

definition build_request ::
  "'w http \<Rightarrow> config \<Rightarrow> string \<Rightarrow> bool \<Rightarrow> string \<Rightarrow> json option \<Rightarrow> (string \<times> string) list option
     \<Rightarrow> (string \<times> string) list option \<Rightarrow> bool \<Rightarrow> http_request \<times> bool" where
  "build_request H cfg url load_json method body params headers has_pagination =
     (let headers1 = (if body \<noteq> None
                      then Some (dict_set ''Content-Type'' ''application/json''
                                   (case headers of None \<Rightarrow> [] | Some h \<Rightarrow> h))
                      else headers);
          body1 = map_option (json_encode H) body;
          url1 = absolute_url H cfg url;
          with_pagination = (load_json \<and> has_pagination \<and> str_lower H method = ''get'');
          params1 = (if with_pagination
                     then Some (dict_set ''per_page'' ''100''
                                  (case params of None \<Rightarrow> [] | Some ps \<Rightarrow> ps))
                     else params);
          url2 = (case params1 of None \<Rightarrow> url1 | Some ps \<Rightarrow> url_concat H url1 ps)
      in (\<lparr>rq_url = url2, rq_method = str_upper H method, rq_body = body1, rq_headers = headers1\<rparr>,
          with_pagination))"

text \<open>
  The exception that leaves \<^verbatim>\<open>_call_provider\<close> when \<open>e\<close> is raised inside its
  \<^verbatim>\<open>try\<close> block.  The handler of \<^verbatim>\<open>HTTPClientError\<close> decodes the body of the failed
  response and looks for a \<open>message\<close>; what it raises itself is not caught again.
\<close>

definition translate_error :: "'w http \<Rightarrow> codec \<Rightarrow> string \<Rightarrow> exn \<Rightarrow> exn" where
  "translate_error H L url e =
     (let invalid = ''Invalid response in '' @ [CHR 0x27] @ url @ [CHR 0x27] @ '': '';
          unknown = ''Unknown error in '' @ [CHR 0x27] @ url @ [CHR 0x27] @ '': ''
      in case e of
           HTTPClientError code response \<Rightarrow>
             (case (case response of
                      None \<Rightarrow> Some ''{}''
                    | Some body \<Rightarrow>
                        utf8_decode L (case body of
                                         None \<Rightarrow> [123, 125]
                                       | Some bs \<Rightarrow> if bs = [] then [123, 125] else bs)) of
                None \<Rightarrow> UnicodeDecodeError
              | Some error_body \<Rightarrow>
                  (case json_loads H error_body of
                     None \<Rightarrow> HTTPError code (invalid @ exn_str H e) None
                   | Some (JDict items) \<Rightarrow>
                       HTTPError code
                         (invalid @ (case map_of (rev items) ''message'' of
                                       None \<Rightarrow> exn_str H e
                                     | Some message \<Rightarrow> py_str H message)) None
                   | Some _ \<Rightarrow> AttributeError ''get''))
         | JSONDecodeError \<Rightarrow> HTTPError BAD_REQUEST invalid (Some e)
         | UnicodeDecodeError \<Rightarrow> HTTPError BAD_REQUEST invalid (Some e)
         | _ \<Rightarrow> HTTPError INTERNAL_SERVER_ERROR unknown (Some e))"

text \<open>\<^verbatim>\<open>isinstance(x, list)\<close>, and \<^verbatim>\<open>if not isinstance(x, list): x = [x]\<close>\<close>

fun is_list :: "json \<Rightarrow> bool" where
  "is_list (JList xs) = True"
| "is_list j = False"

fun as_list :: "json \<Rightarrow> json list" where
  "as_list (JList xs) = xs"
| "as_list j = [j]"

text \<open>
  \<^verbatim>\<open>_call_provider\<close>.  The function calls itself on the next link, so the model counts
  the calls still allowed: \<open>None\<close> is a chain of next links longer than that.  The
  recursive call is inside the \<^verbatim>\<open>try\<close> block, with the encoded body and the updated
  headers of the caller, no query arguments and \<^verbatim>\<open>has_pagination=False\<close>.
\<close>

fun call_provider ::
  "nat \<Rightarrow> 'w http \<Rightarrow> codec \<Rightarrow> config \<Rightarrow> string \<Rightarrow> bool \<Rightarrow> string \<Rightarrow> json option
     \<Rightarrow> (string \<times> string) list option \<Rightarrow> (string \<times> string) list option \<Rightarrow> bool
     \<Rightarrow> 'w client \<Rightarrow> ((exn + json) \<times> 'w client) option" where
  "call_provider 0 H L cfg url load_json method body params headers has_pagination st = None"
| "call_provider (Suc fuel) H L cfg url load_json method body params headers has_pagination st =
     (case missing_credential cfg of
        Some e \<Rightarrow> Some (Inl e, st)
      | None \<Rightarrow>
          (case build_request H cfg url load_json method body params headers has_pagination of
             (request, with_pagination) \<Rightarrow>
          (case fetch H request (remote st) of
             (Inl e, w1) \<Rightarrow>
               Some (Inl (translate_error H L (rq_url request) e),
                     st\<lparr>remote := w1, sent := sent st @ [request]\<rparr>)
           | (Inr response, w1) \<Rightarrow>
               (case utf8_decode L (rs_body response) of
                  None \<Rightarrow>
                    Some (Inl (translate_error H L (rq_url request) UnicodeDecodeError),
                          st\<lparr>remote := w1, sent := sent st @ [request]\<rparr>)
                | Some result \<Rightarrow>
                    if load_json then
                      (case next_link (rs_link response) of
                         Inl e \<Rightarrow>
                           Some (Inl (translate_error H L (rq_url request) e),
                                 st\<lparr>remote := w1, sent := sent st @ [request]\<rparr>)
                       | Inr next_url \<Rightarrow>
                           (case json_loads H result of
                              None \<Rightarrow>
                                Some (Inl (translate_error H L (rq_url request) JSONDecodeError),
                                      st\<lparr>remote := w1, sent := sent st @ [request]\<rparr>)
                            | Some new \<Rightarrow>
                                (case next_url of
                                   None \<Rightarrow>
                                     Some (Inr (if with_pagination \<and> \<not> is_list new
                                                then JList [new] else new),
                                           st\<lparr>remote := w1, sent := sent st @ [request]\<rparr>)
                                 | Some u \<Rightarrow>
                                     (case call_provider fuel H L cfg u load_json method
                                             (map_option JStr (rq_body request)) None
                                             (rq_headers request) False
                                             (st\<lparr>remote := w1, sent := sent st @ [request]\<rparr>) of
                                        None \<Rightarrow> None
                                      | Some (Inl e, st2) \<Rightarrow>
                                          Some (Inl (translate_error H L (rq_url request) e), st2)
                                      | Some (Inr next, st2) \<Rightarrow>
                                          Some (Inr (JList (as_list new @ as_list next)), st2)))))
                    else Some (Inr (JStr result), st\<lparr>remote := w1, sent := sent st @ [request]\<rparr>)))))"

section \<open>A reference object store\<close>

text \<open>
  Modelled from the spec: the Backend Adapter of section 4.3 (the object-store libraries
  behind it are not part of the repository).  The theorems below hold for every backend;
  this one serves to run the operations on concrete inputs.  Objects live in a flat key
  space per store URL.  \<open>list(prefix)\<close> yields the entries under the prefix, whose keys
  are strictly longer than it; \<open>head\<close>, \<open>get\<close>, \<open>delete\<close>, \<open>copy\<close> and \<open>rename\<close> fail
  with \<open>NotFound\<close> when the key does not exist; \<open>put\<close> replaces or creates; the
  directory marker is a zero-byte object under \<open>key + "/"\<close>.
\<close>

record mem =
  objects :: "((string \<times> string) \<times> bytes \<times> nat) list"
  clock :: nat

fun store_url :: "store \<Rightarrow> string" where
  "store_url (S3Store url _ _ _) = url"
| "store_url (GCSStore url) = url"
| "store_url (HTTPStore url) = url"

definition mem_write :: "string \<Rightarrow> string \<Rightarrow> bytes \<Rightarrow> mem \<Rightarrow> mem" where
  "mem_write url key content w =
     w\<lparr>objects := filter (\<lambda>(k, _). k \<noteq> (url, key)) (objects w) @ [((url, key), content, clock w)],
       clock := Suc (clock w)\<rparr>"

definition mem_remove :: "string \<Rightarrow> string \<Rightarrow> mem \<Rightarrow> mem" where
  "mem_remove url key w = w\<lparr>objects := filter (\<lambda>(k, _). k \<noteq> (url, key)) (objects w)\<rparr>"

definition mem_meta :: "string \<Rightarrow> bytes \<times> nat \<Rightarrow> object_meta" where
  "mem_meta key obj = \<lparr>m_path = key, m_last_modified = snd obj, m_size = length (fst obj)\<rparr>"

definition under :: "string \<Rightarrow> string \<Rightarrow> bool" where
  "under pre key = (if pre = [] then key \<noteq> [] else prefix (pre @ ''/'') key)"

definition mem_list :: "store \<Rightarrow> string \<Rightarrow> mem \<Rightarrow> (exn + object_meta list list) \<times> mem" where
  "mem_list s pre w =
     (let rows = map (\<lambda>((_, key), obj). mem_meta key obj)
                   (filter (\<lambda>((url, key), _). url = store_url s \<and> under pre key) (objects w))
      in (Inr (if rows = [] then [] else [rows]), w))"

definition mem_get :: "store \<Rightarrow> string \<Rightarrow> mem \<Rightarrow> (exn + bytes list) \<times> mem" where
  "mem_get s key w =
     (case map_of (objects w) (store_url s, key) of
        None \<Rightarrow> (Inl (NotFoundError key), w)
      | Some obj \<Rightarrow> (Inr (if fst obj = [] then [] else [fst obj]), w))"

definition mem_head :: "store \<Rightarrow> string \<Rightarrow> mem \<Rightarrow> (exn + object_meta) \<times> mem" where
  "mem_head s key w =
     (case map_of (objects w) (store_url s, key) of
        None \<Rightarrow> (Inl (NotFoundError key), w)
      | Some obj \<Rightarrow> (Inr (mem_meta key obj), w))"

definition mem_put :: "store \<Rightarrow> string \<Rightarrow> payload \<Rightarrow> put_mode \<Rightarrow> mem \<Rightarrow> (exn + unit) \<times> mem" where
  "mem_put s key pl mode w =
     (case pl of
        Raw bs \<Rightarrow> (Inr (), mem_write (store_url s) key bs w)
      | Stream bs \<Rightarrow> (Inr (), mem_write (store_url s) key bs w)
      | Value v \<Rightarrow> (Inl (TypeError ''put''), w))"

definition mem_delete :: "store \<Rightarrow> string \<Rightarrow> mem \<Rightarrow> (exn + unit) \<times> mem" where
  "mem_delete s key w =
     (case map_of (objects w) (store_url s, key) of
        None \<Rightarrow> (Inl (NotFoundError key), w)
      | Some obj \<Rightarrow> (Inr (), mem_remove (store_url s) key w))"

definition mem_copy :: "store \<Rightarrow> string \<Rightarrow> string \<Rightarrow> mem \<Rightarrow> (exn + unit) \<times> mem" where
  "mem_copy s src dst w =
     (case map_of (objects w) (store_url s, src) of
        None \<Rightarrow> (Inl (NotFoundError src), w)
      | Some obj \<Rightarrow> (Inr (), mem_write (store_url s) dst (fst obj) w))"

definition mem_rename :: "store \<Rightarrow> string \<Rightarrow> string \<Rightarrow> mem \<Rightarrow> (exn + unit) \<times> mem" where
  "mem_rename s src dst w =
     (case map_of (objects w) (store_url s, src) of
        None \<Rightarrow> (Inl (NotFoundError src), w)
      | Some obj \<Rightarrow> (Inr (), mem_write (store_url s) dst (fst obj) (mem_remove (store_url s) src w)))"

definition mem_backend :: "mem backend" where
  "mem_backend =
     \<lparr>from_url = (\<lambda>s. None),
      obs_list = mem_list, obs_get = mem_get, obs_head = mem_head, obs_put = mem_put,
      obs_delete = mem_delete, obs_copy = mem_copy, obs_rename = mem_rename,
      s3_put_object = (\<lambda>region bucket key w.
         (Inr (), mem_write (''s3://'' @ bucket @ ''/'') key [] w)),
      s3_list_objects_v2 = (\<lambda>region bucket pre w.
         (Inr (list_ex (\<lambda>((url, key), _). url = ''s3://'' @ bucket @ ''/'' \<and> prefix pre key)
                 (objects w)), w))\<rparr>"

text \<open>
  A codec for the concrete runs below.  It agrees with the standard library on what those
  runs use: one-byte (ASCII) text is encoded byte for byte, a string without escapes is
  dumped between quotes, the base64 text \<open>AQID\<close> stands for the bytes 1, 2, 3, and
  timestamp 0 prints as the epoch.  The theorems hold for every codec.
\<close>

definition plain_codec :: codec where
  "plain_codec =
     \<lparr>json_dumps_indent2 = (\<lambda>j. case j of JStr s \<Rightarrow> CHR 0x22 # s @ [CHR 0x22] | _ \<Rightarrow> ''null''),
      utf8_encode = map (\<lambda>c. of_nat (of_char c)),
      utf8_decode = (\<lambda>bs. Some (map (\<lambda>b. char_of (unat b)) bs)),
      b64encode = (\<lambda>bs. if bs = [1, 2, 3] then ''AQID'' else []),
      b64decode = (\<lambda>s. if s = ''AQID'' then Some [1, 2, 3] else None),
      isoformat = (\<lambda>t. ''1970-01-01T00:00:00+00:00'')\<rparr>"

definition s3_cfg :: config where
  "s3_cfg = \<lparr>provider = ''s3'', access_key_id = Some ''AKIA'', secret_access_key = Some ''secret'',
     session_token = Some ''token'', api_base_url = ''https://s3.amazonaws.com/''\<rparr>"

definition fresh :: "mem manager" where
  "fresh = \<lparr>content_managers = Map.empty, s3_clients = [],
     world = \<lparr>objects = [], clock = 0\<rparr>, calls = []\<rparr>"

text \<open>The manager after \<^verbatim>\<open>mount_drive("bucket-a", "s3", "eu-north-1")\<close>.\<close>

definition bucket_a :: store where
  "bucket_a = S3Store ''s3://bucket-a/'' (Some ''AKIA'') (Some ''secret'') ''eu-north-1''"

definition mounted :: "mem manager" where
  "mounted = fresh\<lparr>content_managers := [''bucket-a'' \<mapsto> \<lparr>store = bucket_a, location = ''eu-north-1''\<rparr>]\<rparr>"

text \<open>The status code of a failed call, if the failure is an \<open>HTTPError\<close>.\<close>

definition error_status :: "exn + 'a \<Rightarrow> nat option" where
  "error_status r = (case r of Inl e \<Rightarrow> status_code e | Inr _ \<Rightarrow> None)"

text \<open>
  The format negotiation in the words of the specification, to compare with
  \<open>format_content\<close>: JSON is serialized with 2-space indentation and UTF-8 encoded;
  base64 content (by content format, or of type PDF) is base64-decoded into the raw
  bytes; text is UTF-8 encoded; anything else passes through unmodified.
\<close>

definition negotiated_payload ::
  "codec \<Rightarrow> json \<Rightarrow> string \<Rightarrow> string \<Rightarrow> string \<Rightarrow> exn + payload" where
  "negotiated_payload L content options_format content_format content_type =
     (if options_format = ''json'' then
        Inr (Raw (utf8_encode L (json_dumps_indent2 L content)))
      else if options_format = ''base64'' \<and> (content_format = ''base64'' \<or> content_type = ''PDF'') then
        (case content of
           JStr s \<Rightarrow>
             (case b64decode L s of
                None \<Rightarrow> Inl (ValueError ''b64decode'')
              | Some decoded \<Rightarrow> Inr (Stream decoded))
         | _ \<Rightarrow> Inl (TypeError ''b64decode''))
      else if options_format = ''text'' then
        (case content of
           JStr s \<Rightarrow> Inr (Raw (utf8_encode L s))
         | _ \<Rightarrow> Inl (AttributeError ''encode''))
      else Inr (Value content))"

text \<open>The mounted drive holding two objects, \<open>a.txt\<close> and \<open>dir1/b.txt\<close>.\<close>

definition stocked :: "mem manager" where
  "stocked = mounted\<lparr>world :=
     \<lparr>objects = [((''s3://bucket-a/'', ''a.txt''), [104, 105], 0),
                 ((''s3://bucket-a/'', ''dir1/b.txt''), [1, 2, 3], 1)],
      clock = 2\<rparr>\<rparr>"

section \<open>Chains of pages\<close>

text \<open>The request of a first, paginated \<^verbatim>\<open>GET\<close> without body, and of a call on a next link.\<close>

definition first_request ::
  "'w http \<Rightarrow> config \<Rightarrow> string \<Rightarrow> string \<Rightarrow> (string \<times> string) list option
     \<Rightarrow> (string \<times> string) list option \<Rightarrow> http_request" where
  "first_request H cfg url method params headers =
     fst (build_request H cfg url True method None params headers True)"

definition next_request ::
  "'w http \<Rightarrow> config \<Rightarrow> string \<Rightarrow> (string \<times> string) list option \<Rightarrow> string \<Rightarrow> http_request" where
  "next_request H cfg method headers u =
     fst (build_request H cfg u True method None None headers False)"

text \<open>
  Modelled from the spec: a link header consisting of a comma-separated list of
  \<open><url>; rel="relation"\<close> tokens (section 4.2), given as the list of its
  \<open>(url, relation)\<close> pairs, and the URL of the first entry whose relation is \<open>next\<close>.
  A URL of such a token holds no comma and no semicolon; a relation holds none of these,
  no equals sign and no double quote.
\<close>

definition quoted :: "string \<Rightarrow> string" where
  "quoted s = [CHR 0x22] @ s @ [CHR 0x22]"

definition link_entry :: "string \<times> string \<Rightarrow> string" where
  "link_entry e = ''<'' @ fst e @ ''>; rel='' @ quoted (snd e)"

fun link_header :: "(string \<times> string) list \<Rightarrow> string" where
  "link_header [] = []"
| "link_header [e] = link_entry e"
| "link_header (e # es) = link_entry e @ '', '' @ link_header es"

definition link_token :: "string \<times> string \<Rightarrow> bool" where
  "link_token e =
     (list_all (\<lambda>c. c \<noteq> CHR '','' \<and> c \<noteq> CHR '';'') (fst e)
      \<and> list_all (\<lambda>c. c \<noteq> CHR '','' \<and> c \<noteq> CHR '';'' \<and> c \<noteq> CHR ''='' \<and> c \<noteq> CHR 0x22) (snd e))"

definition next_of :: "(string \<times> string) list \<Rightarrow> string option" where
  "next_of es = map_option fst (List.find (\<lambda>e. snd e = ''next'') es)"

text \<open>
  Modelled from the spec: a provider response sequence of pages linked via \<open>rel="next"\<close>
  (sections 4.2 and 7).  Starting in remote state \<open>w\<close>, the provider answers the request
  \<open>rq\<close> with a response whose body is the JSON text of the first page; the \<^verbatim>\<open>Link\<close>
  header of every page but the last has an entry whose \<open>rel\<close> is \<open>next\<close>, and the request
  \<open>follow u\<close> for its URL \<open>u\<close> is answered with the next page; the last page has no such
  entry and leaves the remote state \<open>w'\<close>.  Each element is the request, the response and
  the decoded page.
\<close>

fun linked ::
  "'w http \<Rightarrow> codec \<Rightarrow> (string \<Rightarrow> http_request) \<Rightarrow> http_request
     \<Rightarrow> (http_request \<times> http_response \<times> json) list \<Rightarrow> 'w \<Rightarrow> 'w \<Rightarrow> bool" where
  "linked H L follow rq [] w w' = False"
| "linked H L follow rq ((rq', rs, page) # rest) w w' =
     (rq' = rq \<and>
      (case fetch H rq w of
         (Inl e, w1) \<Rightarrow> False
       | (Inr rs', w1) \<Rightarrow>
           rs' = rs
           \<and> Option.bind (utf8_decode L (rs_body rs)) (json_loads H) = Some page
           \<and> (case next_link (rs_link rs) of
                Inl e \<Rightarrow> False
              | Inr None \<Rightarrow> rest = [] \<and> w' = w1
              | Inr (Some u) \<Rightarrow> linked H L follow (follow u) rest w1 w')))"

text \<open>
  Modelled from the spec: the items of a page are its elements if it is a sequence, else
  the page itself as the only item.
\<close>

definition page_items :: "http_request \<times> http_response \<times> json \<Rightarrow> json list" where
  "page_items p = (case snd (snd p) of JList elements \<Rightarrow> elements | page \<Rightarrow> [page])"

text \<open>
  A simulated provider with three pages behind \<open>https://h/items\<close>: \<open>[1, 2]\<close>, then
  \<open>3\<close>, then \<open>[4]\<close>, each with a link header of two tokens or one.  The remote state
  counts the requests served.  The library functions agree with the real ones on what the
  run below uses.
\<close>

definition page1 :: http_response where
  "page1 = \<lparr>rs_body = [91, 49, 44, 32, 50, 93],
     rs_link = Some (link_header [(''https://h/items?page=2'', ''next''),
                                  (''https://h/items?page=3'', ''last'')])\<rparr>"

definition page2 :: http_response where
  "page2 = \<lparr>rs_body = [51],
     rs_link = Some (link_header [(''https://h/items?page=1'', ''prev''),
                                  (''https://h/items?page=3'', ''next'')])\<rparr>"

definition page3 :: http_response where
  "page3 = \<lparr>rs_body = [91, 52, 93],
     rs_link = Some (link_header [(''https://h/items?page=2'', ''prev'')])\<rparr>"

definition sim_http :: "nat http" where
  "sim_http =
     \<lparr>fetch = (\<lambda>rq n.
        if rq_url rq = ''https://h/items?per_page=100'' then (Inr page1, Suc n)
        else if rq_url rq = ''https://h/items?page=2'' then (Inr page2, Suc n)
        else if rq_url rq = ''https://h/items?page=3'' then (Inr page3, Suc n)
        else (Inl (HTTPClientError 404 None), Suc n)),
      json_encode = (\<lambda>j. ''null''),
      json_loads = (\<lambda>s. if s = ''[1, 2]'' then Some (JList [JNum 1, JNum 2])
                          else if s = ''3'' then Some (JNum 3)
                          else if s = ''[4]'' then Some (JList [JNum 4])
                          else None),
      url_path_join = (\<lambda>base url. base @ ''/'' @ url),
      url_concat = (\<lambda>url ps. url @ ''?'' @ concat (map (\<lambda>(k, v). k @ ''='' @ v) ps)),
      str_lower = (\<lambda>s. if s = ''GET'' then ''get'' else s),
      str_upper = (\<lambda>s. if s = ''get'' then ''GET'' else s),
      py_str = (\<lambda>j. case j of JStr s \<Rightarrow> s | _ \<Rightarrow> ''null''),
      exn_str = (\<lambda>e. ''error'')\<rparr>"

definition sim_cfg :: config where
  "sim_cfg = s3_cfg\<lparr>api_base_url := ''https://h''\<rparr>"

definition idle :: "nat client" where
  "idle = \<lparr>remote = 0, sent = []\<rparr>"

definition get_items :: "string \<Rightarrow> http_request" where
  "get_items url = \<lparr>rq_url = url, rq_method = ''GET'', rq_body = None, rq_headers = None\<rparr>"

section \<open>Path normalization\<close>

lemma dropWhile_strip_where: "dropWhile P (strip_where P s) = strip_where P s"
proof (cases "strip_where P s")
  case Nil
  then show ?thesis by simp
next
  case (Cons x xs)
  define t where "t = dropWhile P s"
  have "t = rev (dropWhile P (rev t)) @ rev (takeWhile P (rev t))"
    by (metis rev_append rev_rev_ident takeWhile_dropWhile_id)
  then have dec: "t = strip_where P s @ rev (takeWhile P (rev t))"
    by (simp add: strip_where_def t_def)
  with Cons have hd_eq: "hd (strip_where P s) = hd t"
    by (metis append_Cons list.sel(1))
  from dec Cons have "t \<noteq> []" by auto
  then have "\<not> P (hd t)" unfolding t_def by (rule hd_dropWhile)
  with hd_eq Cons have "\<not> P x" by simp
  with Cons show ?thesis by simp
qed

lemma strip_where_idem: "strip_where P (strip_where P s) = strip_where P s"
proof -
  have "strip_where P (strip_where P s) = rev (dropWhile P (rev (strip_where P s)))"
    by (simp add: strip_where_def dropWhile_strip_where [unfolded strip_where_def])
  also have "\<dots> = rev (dropWhile P (dropWhile P (rev (dropWhile P s))))"
    by (simp add: strip_where_def)
  also have "\<dots> = strip_where P s"
    by (simp add: strip_where_def)
  finally show ?thesis .
qed

lemma strip_where_no_lead: "strip_where P s = x # xs \<Longrightarrow> \<not> P x"
  by (metis dropWhile_strip_where dropWhile_eq_Cons_conv)

lemma strip_where_no_trail: "strip_where P s = xs @ [x] \<Longrightarrow> \<not> P x"
proof -
  assume a: "strip_where P s = xs @ [x]"
  then have "dropWhile P (rev (dropWhile P s)) = x # rev xs"
    by (metis rev.simps(2) rev_rev_ident rev_singleton_conv rev_append strip_where_def)
  then show "\<not> P x" by (metis dropWhile_eq_Cons_conv)
qed

lemma normalize_path_strip: "normalize_path p = strip_slash p"
  by (simp add: normalize_path_def strip_slash_def strip_where_def)

text \<open>A string is a run of stripped characters, its stripped form, and another run.\<close>

lemma strip_where_decomp:
  "s = takeWhile P s @ strip_where P s @ rev (takeWhile P (rev (dropWhile P s)))"
proof -
  define t where "t = dropWhile P s"
  have "t = rev (dropWhile P (rev t)) @ rev (takeWhile P (rev t))"
    by (metis rev_append rev_rev_ident takeWhile_dropWhile_id)
  then have "t = strip_where P s @ rev (takeWhile P (rev t))"
    by (simp add: strip_where_def t_def)
  moreover have "s = takeWhile P s @ t"
    by (simp add: t_def)
  ultimately show ?thesis
    unfolding t_def by metis
qed

lemma takeWhile_same: "takeWhile (\<lambda>c. c = a) s = replicate (length (takeWhile (\<lambda>c. c = a) s)) a"
  by (induction s) simp_all

lemma strip_slash_decomp:
  "\<exists>m n. p = replicate m CHR ''/'' @ strip_slash p @ replicate n CHR ''/''"
proof -
  let ?P = "\<lambda>c. c = CHR ''/''"
  have "p = takeWhile ?P p @ strip_slash p @ rev (takeWhile ?P (rev (dropWhile ?P p)))"
    unfolding strip_slash_def by (rule strip_where_decomp)
  moreover have "takeWhile ?P p = replicate (length (takeWhile ?P p)) CHR ''/''"
    by (rule takeWhile_same)
  moreover have "rev (takeWhile ?P (rev (dropWhile ?P p)))
      = replicate (length (takeWhile ?P (rev (dropWhile ?P p)))) CHR ''/''"
    by (metis takeWhile_same rev_replicate)
  ultimately show ?thesis by metis
qed

lemma strip_slash_idem: "strip_slash (strip_slash p) = strip_slash p"
  unfolding strip_slash_def by (rule strip_where_idem)

lemma strip_normalize: "strip_slash (normalize_path p) = strip_slash p"
  by (simp add: normalize_path_strip strip_slash_idem)

lemma normalize_idem: "normalize_path (normalize_path p) = normalize_path p"
  by (simp add: normalize_path_strip strip_slash_idem)

section \<open>Drive registry: mounting twice\<close>

lemmas io_defs = bind_def ret_def raise_def try_except_def resolve_def perform_def Let_def

lemma mount_drive_bound:
  "content_managers st d = Some b \<Longrightarrow>
   mount_drive B cfg d prov region st =
     (Inl (HTTPError BAD_REQUEST ''The following error occured when mouting the drive: ''
             (Some (HTTPError CONFLICT ''Drive already mounted.'' None))), st)"
  by (simp add: mount_drive_def try_except_def)

lemma mount_bucket_a:
  "mount_drive mem_backend s3_cfg ''bucket-a'' ''s3'' ''eu-north-1'' fresh = (Inr (), mounted)"
  by (simp add: mount_drive_def try_except_def make_store_def mem_backend_def s3_cfg_def
      fresh_def mounted_def bucket_a_def)

lemma mounted_binding:
  "content_managers mounted ''bucket-a'' = Some \<lparr>store = bucket_a, location = ''eu-north-1''\<rparr>"
  by (simp add: mounted_def fresh_def)

lemma stocked_binding:
  "content_managers stocked ''bucket-a'' = Some \<lparr>store = bucket_a, location = ''eu-north-1''\<rparr>"
  by (simp add: stocked_def mounted_def fresh_def)

text \<open>
  C1.  Mounting \<open>bucket-a\<close> on a fresh manager succeeds; mounting it again fails and
  leaves the registry as the first mount made it, but the failure that reaches the caller
  is the \<open>400 BAD_REQUEST\<close> of the mount wrapper: the \<open>409 CONFLICT\<close> raised for
  "Drive already mounted." is raised inside the \<^verbatim>\<open>try\<close> block and caught by its own
  \<^verbatim>\<open>except Exception\<close>, so it only survives as the cause quoted in the reason.
\<close>

theorem mount_drive_twice_bad_request:
  "mount_drive mem_backend s3_cfg ''bucket-a'' ''s3'' ''eu-north-1'' fresh = (Inr (), mounted)
   \<and> mount_drive mem_backend s3_cfg ''bucket-a'' ''s3'' ''eu-north-1'' mounted =
       (Inl (HTTPError 400 ''The following error occured when mouting the drive: ''
               (Some (HTTPError 409 ''Drive already mounted.'' None))), mounted)
   \<and> error_status (fst (mount_drive mem_backend s3_cfg ''bucket-a'' ''s3'' ''eu-north-1'' mounted))
       \<noteq> Some CONFLICT"
  using mount_bucket_a mount_drive_bound [OF mounted_binding]
  by (simp add: BAD_REQUEST_def CONFLICT_def error_status_def)

section \<open>Deleting a key that does not exist\<close>

lemma delete_file_bound:
  assumes "content_managers st d = Some b"
  shows "delete_file B d p st =
     (case obs_delete B (store b) (strip_slash p) (world st) of
        (Inl e, w') \<Rightarrow>
          (Inl (HTTPError BAD_REQUEST ''The following error occured when deleting the object: '' (Some e)),
           st\<lparr>world := w', calls := calls st @ [ObsDelete (store b) (strip_slash p)]\<rparr>)
      | (Inr u, w') \<Rightarrow>
          (Inr (), st\<lparr>world := w', calls := calls st @ [ObsDelete (store b) (strip_slash p)]\<rparr>))"
  using assms by (simp add: delete_file_def io_defs split: prod.splits sum.splits)

lemma strip_missing: "strip_slash ''/missing.txt'' = ''missing.txt''"
  by (simp add: strip_slash_def strip_where_def)

lemma mem_delete_missing:
  "obs_delete mem_backend bucket_a (strip_slash ''/missing.txt'') (world mounted) =
   (Inl (NotFoundError ''missing.txt''), world mounted)"
  by (simp add: strip_missing mem_backend_def mem_delete_def mounted_def fresh_def)

text \<open>
  C3, as stated, fails: on the mounted drive, deleting the absent key \<open>missing.txt\<close>,
  for which the store answers \<open>NotFound\<close>, ends with status 400, the delete wrapper, and
  not with 404.
\<close>

theorem delete_file_missing_counterexample:
  "error_status (fst (delete_file mem_backend ''bucket-a'' ''/missing.txt'' mounted)) = Some 400
   \<and> error_status (fst (delete_file mem_backend ''bucket-a'' ''/missing.txt'' mounted))
       \<noteq> Some NOT_FOUND"
  by (simp add: delete_file_bound [OF mounted_binding] mem_delete_missing error_status_def
      BAD_REQUEST_def NOT_FOUND_def)

text \<open>
  C3, amended.  On a mounted drive, whenever the store's delete fails (as it does, with
  \<open>NotFound\<close>, for a key that does not exist), \<^verbatim>\<open>delete_file\<close> fails with the delete
  wrapper: status \<open>400 BAD_REQUEST\<close>, the reason quoting the store's own exception.  The
  key handed to the store is the path without its leading and trailing slashes.
\<close>

theorem delete_file_wraps_backend_failure:
  assumes "content_managers st d = Some b"
    and "obs_delete B (store b) (strip_slash p) (world st) = (Inl e, w')"
  shows "delete_file B d p st =
     (Inl (HTTPError BAD_REQUEST ''The following error occured when deleting the object: '' (Some e)),
      st\<lparr>world := w', calls := calls st @ [ObsDelete (store b) (strip_slash p)]\<rparr>)"
  using assms by (simp add: delete_file_bound)

theorem delete_file_wraps_backend_failure_witness:
  "content_managers mounted ''bucket-a'' = Some \<lparr>store = bucket_a, location = ''eu-north-1''\<rparr>
   \<and> obs_delete mem_backend bucket_a ''missing.txt'' (world mounted) =
       (Inl (NotFoundError ''missing.txt''), world mounted)
   \<and> delete_file mem_backend ''bucket-a'' ''/missing.txt'' mounted =
       (Inl (HTTPError 400 ''The following error occured when deleting the object: ''
               (Some (NotFoundError ''missing.txt''))),
        mounted\<lparr>calls := [ObsDelete bucket_a ''missing.txt'']\<rparr>)"
  using delete_file_wraps_backend_failure [OF mounted_binding,
      where B = mem_backend and p = "''/missing.txt''"]
    mounted_binding mem_delete_missing
  by (simp add: strip_missing BAD_REQUEST_def mounted_def fresh_def)

section \<open>Operations on a drive that is not mounted\<close>

text \<open>
  C4, as stated, fails: on a manager with no mounted drive, \<^verbatim>\<open>get_contents\<close> ends with
  status 400, the wrapper of the operation, and not with the 404 that \<^verbatim>\<open>unmount_drive\<close>
  and \<^verbatim>\<open>check_file\<close> use for a drive or an object that is not there.
\<close>

theorem unmounted_get_contents_counterexample:
  "content_managers fresh ''bucket-a'' = None
   \<and> error_status (fst (get_contents mem_backend plain_codec s3_cfg ''bucket-a'' ''a.txt'' fresh))
       = Some 400
   \<and> error_status (fst (get_contents mem_backend plain_codec s3_cfg ''bucket-a'' ''a.txt'' fresh))
       \<noteq> Some NOT_FOUND"
  by (simp add: get_contents_def io_defs fresh_def error_status_def BAD_REQUEST_def NOT_FOUND_def)

text \<open>
  C4, amended.  For a drive name with no binding in the registry, every content operation
  fails before any call to the object store or the S3 client (the manager's state, with
  its log of calls and the remote state, is returned unchanged).  The failure is the
  wrapper of the operation, status \<open>400 BAD_REQUEST\<close>, quoting the \<open>KeyError\<close> of the
  registry lookup (for \<^verbatim>\<open>new_file\<close> of a directory under provider \<open>s3\<close>, quoting the
  wrapper of the directory helper; for \<^verbatim>\<open>save_file\<close>, quoting the failure of the format
  conversion when that fails first); only \<^verbatim>\<open>check_file\<close> answers \<open>404 NOT_FOUND\<close>.
\<close>

theorem unmounted_drive_operations_fail_locally:
  assumes "content_managers st d = None"
  shows "get_contents B L cfg d p st =
           (Inl (HTTPError BAD_REQUEST ''The following error occured when retrieving the contents: ''
              (Some (KeyError d))), st)
       \<and> new_file B L cfg d p is_dir st =
           (Inl (HTTPError BAD_REQUEST ''The following error occured when creating the object: ''
              (Some (if is_dir = False \<or> provider cfg \<noteq> ''s3'' then KeyError d
                     else HTTPError BAD_REQUEST
                       ''The following error occured when creating the directory: ''
                       (Some (KeyError d))))), st)
       \<and> save_file B L d p content options_format content_format content_type st =
           (Inl (HTTPError BAD_REQUEST ''The following error occured when saving the file: ''
              (Some (case format_content L content options_format content_format content_type of
                       Inl e \<Rightarrow> e | Inr _ \<Rightarrow> KeyError d))), st)
       \<and> rename_file B L d p new_path st =
           (Inl (HTTPError BAD_REQUEST ''The following error occured when renaming the object: ''
              (Some (KeyError d))), st)
       \<and> delete_file B d p st =
           (Inl (HTTPError BAD_REQUEST ''The following error occured when deleting the object: ''
              (Some (KeyError d))), st)
       \<and> copy_file B L d p to_path st =
           (Inl (HTTPError BAD_REQUEST ''The following error occured when copying the: ''
              (Some (KeyError d))), st)
       \<and> check_file B d p st =
           (Inl (HTTPError NOT_FOUND ''Object does not already exist within drive.'' None), st)"
proof -
  have g: "get_contents B L cfg d p st =
           (Inl (HTTPError BAD_REQUEST ''The following error occured when retrieving the contents: ''
              (Some (KeyError d))), st)"
    using assms by (simp add: get_contents_def io_defs)
  have n: "new_file B L cfg d p is_dir st =
           (Inl (HTTPError BAD_REQUEST ''The following error occured when creating the object: ''
              (Some (if is_dir = False \<or> provider cfg \<noteq> ''s3'' then KeyError d
                     else HTTPError BAD_REQUEST
                       ''The following error occured when creating the directory: ''
                       (Some (KeyError d))))), st)"
    using assms by (simp add: new_file_def create_empty_directory_def io_defs)
  have s: "save_file B L d p content options_format content_format content_type st =
           (Inl (HTTPError BAD_REQUEST ''The following error occured when saving the file: ''
              (Some (case format_content L content options_format content_format content_type of
                       Inl e \<Rightarrow> e | Inr _ \<Rightarrow> KeyError d))), st)"
    using assms by (simp add: save_file_def io_defs split: sum.splits)
  have r: "rename_file B L d p new_path st =
           (Inl (HTTPError BAD_REQUEST ''The following error occured when renaming the object: ''
              (Some (KeyError d))), st)"
    using assms by (simp add: rename_file_def io_defs)
  have dl: "delete_file B d p st =
           (Inl (HTTPError BAD_REQUEST ''The following error occured when deleting the object: ''
              (Some (KeyError d))), st)"
    using assms by (simp add: delete_file_def io_defs)
  have c: "copy_file B L d p to_path st =
           (Inl (HTTPError BAD_REQUEST ''The following error occured when copying the: ''
              (Some (KeyError d))), st)"
    using assms by (simp add: copy_file_def io_defs)
  have k: "check_file B d p st =
           (Inl (HTTPError NOT_FOUND ''Object does not already exist within drive.'' None), st)"
    using assms by (simp add: check_file_def io_defs)
  from g n s r dl c k show ?thesis by blast
qed

lemma fresh_unbound: "content_managers fresh ''bucket-a'' = None"
  by (simp add: fresh_def)

theorem unmounted_drive_operations_fail_locally_witness:
  "content_managers fresh ''bucket-a'' = None
   \<and> get_contents mem_backend plain_codec s3_cfg ''bucket-a'' ''a.txt'' fresh =
       (Inl (HTTPError 400 ''The following error occured when retrieving the contents: ''
          (Some (KeyError ''bucket-a''))), fresh)
   \<and> new_file mem_backend plain_codec s3_cfg ''bucket-a'' ''a.txt'' True fresh =
       (Inl (HTTPError 400 ''The following error occured when creating the object: ''
          (Some (HTTPError 400 ''The following error occured when creating the directory: ''
             (Some (KeyError ''bucket-a''))))), fresh)
   \<and> save_file mem_backend plain_codec ''bucket-a'' ''a.txt'' (JStr ''hi'') ''text'' ''text'' ''file'' fresh =
       (Inl (HTTPError 400 ''The following error occured when saving the file: ''
          (Some (KeyError ''bucket-a''))), fresh)
   \<and> rename_file mem_backend plain_codec ''bucket-a'' ''a.txt'' ''b.txt'' fresh =
       (Inl (HTTPError 400 ''The following error occured when renaming the object: ''
          (Some (KeyError ''bucket-a''))), fresh)
   \<and> delete_file mem_backend ''bucket-a'' ''a.txt'' fresh =
       (Inl (HTTPError 400 ''The following error occured when deleting the object: ''
          (Some (KeyError ''bucket-a''))), fresh)
   \<and> copy_file mem_backend plain_codec ''bucket-a'' ''a.txt'' ''b.txt'' fresh =
       (Inl (HTTPError 400 ''The following error occured when copying the: ''
          (Some (KeyError ''bucket-a''))), fresh)
   \<and> check_file mem_backend ''bucket-a'' ''a.txt'' fresh =
       (Inl (HTTPError 404 ''Object does not already exist within drive.'' None), fresh)"
  using unmounted_drive_operations_fail_locally [OF fresh_unbound,
      where B = mem_backend and L = plain_codec and cfg = s3_cfg and p = "''a.txt''"
        and is_dir = True and content = "JStr ''hi''" and options_format = "''text''"
        and content_format = "''text''" and content_type = "''file''"
        and new_path = "''b.txt''" and to_path = "''b.txt''"]
    fresh_unbound
  by (simp add: BAD_REQUEST_def NOT_FOUND_def s3_cfg_def format_content_def)

section \<open>Directory detection in \<^verbatim>\<open>get_contents\<close>\<close>

lemma list_loop_eq:
  "list_loop L batches (rows, isDir, emptyDir) =
     (rows @ map (to_entry L) (concat batches),
      isDir \<or> concat batches \<noteq> [],
      (if isDir = False \<and> concat batches \<noteq> [] then False else emptyDir))"
  by (induction batches arbitrary: rows isDir emptyDir) (auto simp del: concat_eq_Nil_conv)

lemma get_contents_listing:
  assumes "content_managers st d = Some b"
    and "obs_list B (store b) (normalize_path p) (world st) = (Inr batches, w')"
    and "concat batches \<noteq> []"
  shows "get_contents B L cfg d p st =
     (Inr (Listing (map (to_entry L) (concat batches))),
      st\<lparr>world := w', calls := calls st @ [ObsList (store b) (normalize_path p)]\<rparr>)"
  using assms by (simp add: get_contents_def io_defs list_loop_eq del: concat_eq_Nil_conv)

lemma normalize_dir1: "normalize_path ''/dir1/'' = ''dir1''"
  by (simp add: normalize_path_def strip_slash_def strip_where_def)

lemma stocked_list_dir1:
  "obs_list mem_backend bucket_a ''dir1'' (world stocked) =
     (Inr [[\<lparr>m_path = ''dir1/b.txt'', m_last_modified = 1, m_size = 3\<rparr>]], world stocked)"
  by (simp add: mem_backend_def mem_list_def stocked_def mounted_def fresh_def bucket_a_def
      under_def mem_meta_def)

text \<open>
  C5.  On a mounted drive, when the listing under the normalized path yields at least one
  entry, \<^verbatim>\<open>get_contents\<close> returns the directory shape: \<open>data\<close> is the sequence of
  \<open>{path, last_modified, size}\<close> rows, one for every listed entry in listing order, and
  never the single-file shape.  The only operation issued is the listing itself: no
  \<^verbatim>\<open>get\<close> and no \<^verbatim>\<open>head\<close> follows.
\<close>

theorem get_contents_directory_listing:
  assumes "content_managers st d = Some b"
    and "obs_list B (store b) (normalize_path p) (world st) = (Inr batches, w')"
    and "concat batches \<noteq> []"
  shows "get_contents B L cfg d p st =
     (Inr (Listing (map (to_entry L) (concat batches))),
      st\<lparr>world := w', calls := calls st @ [ObsList (store b) (normalize_path p)]\<rparr>)"
  using assms by (rule get_contents_listing)

theorem get_contents_directory_listing_witness:
  "content_managers stocked ''bucket-a'' = Some \<lparr>store = bucket_a, location = ''eu-north-1''\<rparr>
   \<and> obs_list mem_backend bucket_a ''dir1'' (world stocked) =
       (Inr [[\<lparr>m_path = ''dir1/b.txt'', m_last_modified = 1, m_size = 3\<rparr>]], world stocked)
   \<and> get_contents mem_backend plain_codec s3_cfg ''bucket-a'' ''/dir1/'' stocked =
       (Inr (Listing [\<lparr>e_path = ''dir1/b.txt'', e_last_modified = ''1970-01-01T00:00:00+00:00'',
                        e_size = 3\<rparr>]),
        stocked\<lparr>calls := [ObsList bucket_a ''dir1'']\<rparr>)"
  using get_contents_directory_listing [OF stocked_binding,
      where B = mem_backend and p = "''/dir1/''" and L = plain_codec and cfg = s3_cfg
        and batches = "[[\<lparr>m_path = ''dir1/b.txt'', m_last_modified = 1, m_size = 3\<rparr>]]"
        and w' = "world stocked"]
    stocked_binding stocked_list_dir1
  by (simp add: normalize_dir1 to_entry_def plain_codec_def stocked_def mounted_def fresh_def)

section \<open>Format negotiation in \<^verbatim>\<open>save_file\<close>\<close>

text \<open>Joining the 512-byte slices gives back the decoded bytes.\<close>

lemma concat_slices: "concat (map (\<lambda>i. take n (drop (i * n) xs)) [0 ..< k]) = take (k * n) xs"
proof (induction k)
  case 0
  then show ?case by simp
next
  case (Suc k)
  have "take (k * n + n) xs = take (k * n) xs @ take n (drop (k * n) xs)"
    by (rule take_add)
  moreover have "Suc k * n = k * n + n" by simp
  moreover have "concat (map (\<lambda>i. take n (drop (i * n) xs)) [0 ..< Suc k])
       = concat (map (\<lambda>i. take n (drop (i * n) xs)) [0 ..< k]) @ take n (drop (k * n) xs)"
    by simp
  ultimately show ?case using Suc by metis
qed

lemma concat_chunks:
  assumes "0 < n"
  shows "concat (map (\<lambda>offset. take n (drop offset xs)) (range_step (length xs) n)) = xs"
proof -
  define k where "k = (length xs + n - 1) div n"
  have "(length xs + n - 1) mod n < n" using assms by simp
  moreover have "k * n + (length xs + n - 1) mod n = length xs + n - 1"
    unfolding k_def by simp
  ultimately have le: "length xs \<le> k * n" by arith
  have "concat (map (\<lambda>offset. take n (drop offset xs)) (range_step (length xs) n))
      = concat (map (\<lambda>i. take n (drop (i * n) xs)) [0 ..< k])"
    by (simp only: range_step_def k_def map_map comp_def)
  also have "\<dots> = take (k * n) xs" by (rule concat_slices)
  also have "\<dots> = xs" using le by simp
  finally show ?thesis .
qed

lemma concat_byte_arrays: "concat (byte_arrays bs) = bs"
  unfolding byte_arrays_def by (rule concat_chunks) simp

lemma format_content_negotiated:
  "format_content L content options_format content_format content_type =
   negotiated_payload L content options_format content_format content_type"
  by (simp add: format_content_def negotiated_payload_def concat_byte_arrays
      split: json.splits option.splits)

text \<open>
  C6.  On a mounted drive, when the format negotiation (as the specification words it,
  without the 512-byte slicing) yields a payload, that payload is what \<^verbatim>\<open>save_file\<close>
  hands to \<^verbatim>\<open>put\<close>, at the normalized path and in overwrite mode; a \<^verbatim>\<open>head\<close> of the
  same path follows when the write succeeds, and its metadata is returned with the
  caller's content.  A failure of either call is wrapped as the save error.
\<close>

theorem save_file_writes_negotiated_content:
  assumes "content_managers st d = Some b"
    and "negotiated_payload L content options_format content_format content_type = Inr pl"
  shows "save_file B L d p content options_format content_format content_type st =
     (case obs_put B (store b) (strip_slash p) pl Overwrite (world st) of
        (Inl e, w1) \<Rightarrow>
          (Inl (HTTPError BAD_REQUEST ''The following error occured when saving the file: '' (Some e)),
           st\<lparr>world := w1, calls := calls st @ [ObsPut (store b) (strip_slash p) pl Overwrite]\<rparr>)
      | (Inr _, w1) \<Rightarrow>
          (case obs_head B (store b) (strip_slash p) w1 of
             (Inl e, w2) \<Rightarrow>
               (Inl (HTTPError BAD_REQUEST ''The following error occured when saving the file: '' (Some e)),
                st\<lparr>world := w2, calls := calls st @ [ObsPut (store b) (strip_slash p) pl Overwrite,
                                                    ObsHead (store b) (strip_slash p)]\<rparr>)
           | (Inr metadata, w2) \<Rightarrow>
               (Inr \<lparr>i_path = strip_slash p, i_content = Some content,
                     i_last_modified = isoformat L (m_last_modified metadata),
                     i_size = m_size metadata\<rparr>,
                st\<lparr>world := w2, calls := calls st @ [ObsPut (store b) (strip_slash p) pl Overwrite,
                                                    ObsHead (store b) (strip_slash p)]\<rparr>)))"
  using assms
  by (simp add: save_file_def io_defs format_content_negotiated split: prod.splits sum.splits)

lemma strip_pic: "strip_slash ''/pic.png'' = ''pic.png''"
  by (simp add: strip_slash_def strip_where_def)

lemma negotiated_pic:
  "negotiated_payload plain_codec (JStr ''AQID'') ''base64'' ''base64'' ''file'' =
     Inr (Stream [1, 2, 3])"
  by (simp add: negotiated_payload_def plain_codec_def)

theorem save_file_writes_negotiated_content_witness:
  "content_managers mounted ''bucket-a'' = Some \<lparr>store = bucket_a, location = ''eu-north-1''\<rparr>
   \<and> negotiated_payload plain_codec (JStr ''AQID'') ''base64'' ''base64'' ''file'' =
       Inr (Stream [1, 2, 3])
   \<and> save_file mem_backend plain_codec ''bucket-a'' ''/pic.png'' (JStr ''AQID'')
         ''base64'' ''base64'' ''file'' mounted =
       (Inr \<lparr>i_path = ''pic.png'', i_content = Some (JStr ''AQID''),
             i_last_modified = ''1970-01-01T00:00:00+00:00'', i_size = 3\<rparr>,
        mounted\<lparr>world := \<lparr>objects = [((''s3://bucket-a/'', ''pic.png''), [1, 2, 3], 0)],
                            clock = 1\<rparr>,
                 calls := [ObsPut bucket_a ''pic.png'' (Stream [1, 2, 3]) Overwrite,
                           ObsHead bucket_a ''pic.png'']\<rparr>)"
  using save_file_writes_negotiated_content [OF mounted_binding negotiated_pic,
      where B = mem_backend and p = "''/pic.png''"]
    mounted_binding negotiated_pic
  by (simp add: strip_pic mem_backend_def mem_put_def mem_write_def mem_head_def mem_meta_def
      plain_codec_def mounted_def fresh_def bucket_a_def)

section \<open>Destination paths of \<^verbatim>\<open>rename_file\<close> and \<^verbatim>\<open>copy_file\<close>\<close>

lemma rename_file_bound:
  assumes "content_managers st d = Some b"
  shows "rename_file B L d p new_path st =
     (case obs_rename B (store b) (strip_slash p) new_path (world st) of
        (Inl e, w1) \<Rightarrow>
          (Inl (HTTPError BAD_REQUEST ''The following error occured when renaming the object: '' (Some e)),
           st\<lparr>world := w1, calls := calls st @ [ObsRename (store b) (strip_slash p) new_path]\<rparr>)
      | (Inr _, w1) \<Rightarrow>
          (case obs_head B (store b) new_path w1 of
             (Inl e, w2) \<Rightarrow>
               (Inl (HTTPError BAD_REQUEST ''The following error occured when renaming the object: '' (Some e)),
                st\<lparr>world := w2, calls := calls st @ [ObsRename (store b) (strip_slash p) new_path,
                                                    ObsHead (store b) new_path]\<rparr>)
           | (Inr metadata, w2) \<Rightarrow>
               (Inr \<lparr>i_path = new_path, i_content = None,
                     i_last_modified = isoformat L (m_last_modified metadata),
                     i_size = m_size metadata\<rparr>,
                st\<lparr>world := w2, calls := calls st @ [ObsRename (store b) (strip_slash p) new_path,
                                                    ObsHead (store b) new_path]\<rparr>)))"
  using assms
  by (simp add: rename_file_def io_defs split: prod.splits sum.splits)

lemma copy_file_bound:
  assumes "content_managers st d = Some b"
  shows "copy_file B L d p to_path st =
     (case obs_copy B (store b) (strip_slash p) to_path (world st) of
        (Inl e, w1) \<Rightarrow>
          (Inl (HTTPError BAD_REQUEST ''The following error occured when copying the: '' (Some e)),
           st\<lparr>world := w1, calls := calls st @ [ObsCopy (store b) (strip_slash p) to_path]\<rparr>)
      | (Inr _, w1) \<Rightarrow>
          (case obs_head B (store b) to_path w1 of
             (Inl e, w2) \<Rightarrow>
               (Inl (HTTPError BAD_REQUEST ''The following error occured when copying the: '' (Some e)),
                st\<lparr>world := w2, calls := calls st @ [ObsCopy (store b) (strip_slash p) to_path,
                                                    ObsHead (store b) to_path]\<rparr>)
           | (Inr metadata, w2) \<Rightarrow>
               (Inr \<lparr>i_path = to_path, i_content = None,
                     i_last_modified = isoformat L (m_last_modified metadata),
                     i_size = m_size metadata\<rparr>,
                st\<lparr>world := w2, calls := calls st @ [ObsCopy (store b) (strip_slash p) to_path,
                                                    ObsHead (store b) to_path]\<rparr>)))"
  using assms
  by (simp add: copy_file_def io_defs split: prod.splits sum.splits)

text \<open>
  C10.  On a mounted drive, \<^verbatim>\<open>rename_file\<close> and \<^verbatim>\<open>copy_file\<close> strip the slashes of
  the source path only: the destination argument goes to the store's rename or copy and
  to the following \<^verbatim>\<open>head\<close> exactly as given, and is echoed as the \<open>path\<close> of the
  response.
\<close>

theorem rename_copy_destination_verbatim:
  assumes "content_managers st d = Some b"
  shows "rename_file B L d p new_path st =
     (case obs_rename B (store b) (strip_slash p) new_path (world st) of
        (Inl e, w1) \<Rightarrow>
          (Inl (HTTPError BAD_REQUEST ''The following error occured when renaming the object: '' (Some e)),
           st\<lparr>world := w1, calls := calls st @ [ObsRename (store b) (strip_slash p) new_path]\<rparr>)
      | (Inr _, w1) \<Rightarrow>
          (case obs_head B (store b) new_path w1 of
             (Inl e, w2) \<Rightarrow>
               (Inl (HTTPError BAD_REQUEST ''The following error occured when renaming the object: '' (Some e)),
                st\<lparr>world := w2, calls := calls st @ [ObsRename (store b) (strip_slash p) new_path,
                                                    ObsHead (store b) new_path]\<rparr>)
           | (Inr metadata, w2) \<Rightarrow>
               (Inr \<lparr>i_path = new_path, i_content = None,
                     i_last_modified = isoformat L (m_last_modified metadata),
                     i_size = m_size metadata\<rparr>,
                st\<lparr>world := w2, calls := calls st @ [ObsRename (store b) (strip_slash p) new_path,
                                                    ObsHead (store b) new_path]\<rparr>)))
   \<and> copy_file B L d p to_path st =
     (case obs_copy B (store b) (strip_slash p) to_path (world st) of
        (Inl e, w1) \<Rightarrow>
          (Inl (HTTPError BAD_REQUEST ''The following error occured when copying the: '' (Some e)),
           st\<lparr>world := w1, calls := calls st @ [ObsCopy (store b) (strip_slash p) to_path]\<rparr>)
      | (Inr _, w1) \<Rightarrow>
          (case obs_head B (store b) to_path w1 of
             (Inl e, w2) \<Rightarrow>
               (Inl (HTTPError BAD_REQUEST ''The following error occured when copying the: '' (Some e)),
                st\<lparr>world := w2, calls := calls st @ [ObsCopy (store b) (strip_slash p) to_path,
                                                    ObsHead (store b) to_path]\<rparr>)
           | (Inr metadata, w2) \<Rightarrow>
               (Inr \<lparr>i_path = to_path, i_content = None,
                     i_last_modified = isoformat L (m_last_modified metadata),
                     i_size = m_size metadata\<rparr>,
                st\<lparr>world := w2, calls := calls st @ [ObsCopy (store b) (strip_slash p) to_path,
                                                    ObsHead (store b) to_path]\<rparr>)))"
  using rename_file_bound [OF assms] copy_file_bound [OF assms] by blast

lemma strip_a_txt: "strip_slash ''/a.txt/'' = ''a.txt''"
  by (simp add: strip_slash_def strip_where_def)

lemmas mem_defs = mem_backend_def mem_list_def mem_get_def mem_head_def mem_put_def
  mem_delete_def mem_copy_def mem_rename_def mem_write_def mem_remove_def mem_meta_def under_def

theorem rename_copy_destination_verbatim_witness:
  "content_managers stocked ''bucket-a'' = Some \<lparr>store = bucket_a, location = ''eu-north-1''\<rparr>
   \<and> rename_file mem_backend plain_codec ''bucket-a'' ''/a.txt/'' ''/b/'' stocked =
       (Inr \<lparr>i_path = ''/b/'', i_content = None,
             i_last_modified = ''1970-01-01T00:00:00+00:00'', i_size = 2\<rparr>,
        stocked\<lparr>world := \<lparr>objects = [((''s3://bucket-a/'', ''dir1/b.txt''), [1, 2, 3], 1),
                                        ((''s3://bucket-a/'', ''/b/''), [104, 105], 2)],
                            clock = 3\<rparr>,
                 calls := [ObsRename bucket_a ''a.txt'' ''/b/'', ObsHead bucket_a ''/b/'']\<rparr>)
   \<and> copy_file mem_backend plain_codec ''bucket-a'' ''/a.txt/'' ''/b/'' stocked =
       (Inr \<lparr>i_path = ''/b/'', i_content = None,
             i_last_modified = ''1970-01-01T00:00:00+00:00'', i_size = 2\<rparr>,
        stocked\<lparr>world := \<lparr>objects = [((''s3://bucket-a/'', ''a.txt''), [104, 105], 0),
                                        ((''s3://bucket-a/'', ''dir1/b.txt''), [1, 2, 3], 1),
                                        ((''s3://bucket-a/'', ''/b/''), [104, 105], 2)],
                            clock = 3\<rparr>,
                 calls := [ObsCopy bucket_a ''a.txt'' ''/b/'', ObsHead bucket_a ''/b/'']\<rparr>)"
  using rename_copy_destination_verbatim [OF stocked_binding,
      where B = mem_backend and L = plain_codec and p = "''/a.txt/''"
        and new_path = "''/b/''" and to_path = "''/b/''"]
    stocked_binding
  by (simp add: strip_a_txt mem_defs plain_codec_def stocked_def mounted_def fresh_def bucket_a_def)

section \<open>Creating a directory\<close>

lemma new_file_marker_bound:
  assumes "content_managers st d = Some b" and "provider cfg = ''s3''"
  shows "new_file B L cfg d p True st =
     (case s3_put_object B (location b) d (strip_slash p @ ''/'') (world st) of
        (Inl e, w1) \<Rightarrow>
          (Inl (HTTPError BAD_REQUEST ''The following error occured when creating the object: ''
                 (Some (HTTPError BAD_REQUEST ''The following error occured when creating the directory: ''
                    (Some e)))),
           st\<lparr>s3_clients := (if location b \<in> set (s3_clients st) then s3_clients st
                                else s3_clients st @ [location b]),
                world := w1,
                calls := calls st @ [S3PutObject (location b) d (strip_slash p @ ''/'')]\<rparr>)
      | (Inr _, w1) \<Rightarrow>
          (case obs_head B (store b) (strip_slash p) w1 of
             (Inl e, w2) \<Rightarrow>
               (Inl (HTTPError BAD_REQUEST ''The following error occured when creating the object: '' (Some e)),
                st\<lparr>s3_clients := (if location b \<in> set (s3_clients st) then s3_clients st
                                     else s3_clients st @ [location b]),
                     world := w2,
                     calls := calls st @ [S3PutObject (location b) d (strip_slash p @ ''/''),
                                          ObsHead (store b) (strip_slash p)]\<rparr>)
           | (Inr metadata, w2) \<Rightarrow>
               (Inr \<lparr>i_path = strip_slash p, i_content = Some (JStr []),
                     i_last_modified = isoformat L (m_last_modified metadata),
                     i_size = m_size metadata\<rparr>,
                st\<lparr>s3_clients := (if location b \<in> set (s3_clients st) then s3_clients st
                                     else s3_clients st @ [location b]),
                     world := w2,
                     calls := calls st @ [S3PutObject (location b) d (strip_slash p @ ''/''),
                                          ObsHead (store b) (strip_slash p)]\<rparr>)))"
  using assms
  by (simp add: new_file_def create_empty_directory_def s3_client_def io_defs split: prod.splits sum.splits)

lemma strip_plain_dir1: "strip_slash ''dir1'' = ''dir1''" "normalize_path ''dir1'' = ''dir1''"
  by (simp_all add: normalize_path_def strip_slash_def strip_where_def)

lemma new_file_plain_dir1:
  "new_file mem_backend plain_codec s3_cfg ''bucket-a'' ''dir1'' True mounted =
     (Inl (HTTPError 400 ''The following error occured when creating the object: ''
             (Some (NotFoundError ''dir1''))),
      mounted\<lparr>s3_clients := [''eu-north-1''],
              world := \<lparr>objects = [((''s3://bucket-a/'', ''dir1/''), [], 0)], clock = 1\<rparr>,
              calls := [S3PutObject ''eu-north-1'' ''bucket-a'' ''dir1/'', ObsHead bucket_a ''dir1'']\<rparr>)"
  using new_file_marker_bound [OF mounted_binding, where cfg = s3_cfg and B = mem_backend
      and L = plain_codec and p = "''dir1''"]
  by (simp add: strip_plain_dir1 mem_defs s3_cfg_def mounted_def fresh_def bucket_a_def BAD_REQUEST_def)

lemma list_after_marker:
  "obs_list mem_backend bucket_a ''dir1''
     \<lparr>objects = [((''s3://bucket-a/'', ''dir1/''), [], 0)], clock = 1\<rparr> =
   (Inr [[\<lparr>m_path = ''dir1/'', m_last_modified = 0, m_size = 0\<rparr>]],
    \<lparr>objects = [((''s3://bucket-a/'', ''dir1/''), [], 0)], clock = 1\<rparr>)"
  by (simp add: mem_defs bucket_a_def)

lemma marked_binding:
  "content_managers (mounted\<lparr>s3_clients := [''eu-north-1''],
              world := \<lparr>objects = [((''s3://bucket-a/'', ''dir1/''), [], 0)], clock = 1\<rparr>,
              calls := [S3PutObject ''eu-north-1'' ''bucket-a'' ''dir1/'', ObsHead bucket_a ''dir1'']\<rparr>)
     ''bucket-a'' = Some \<lparr>store = bucket_a, location = ''eu-north-1''\<rparr>"
  by (simp add: mounted_def fresh_def)

text \<open>
  C7.  The scenario of the specification, run on the reference store: after
  \<^verbatim>\<open>mount_drive("bucket-a", "s3", "eu-north-1")\<close> with configured provider \<open>s3\<close>,
  \<^verbatim>\<open>new_file("bucket-a", "dir1", is_dir=True)\<close> writes the directory marker under
  \<open>dir1/\<close> with the S3 client and issues no plain \<^verbatim>\<open>put\<close>.  The \<^verbatim>\<open>head\<close> that follows
  is issued on \<open>dir1\<close>, the path without the slash, where no object exists: the call
  fails with \<open>400 BAD_REQUEST\<close>, the create error, instead of returning the metadata of the
  new entry, although the marker is in place and a \<^verbatim>\<open>get_contents\<close> of \<open>dir1\<close> right
  afterwards lists it as a directory.  For every backend and every mounted drive,
  \<open>new_file_marker_bound\<close> gives the two keys: the marker is written at the stripped path
  followed by a slash, the \<^verbatim>\<open>head\<close> asks for the stripped path.
\<close>

theorem new_file_directory_heads_unmarked_key:
  "mount_drive mem_backend s3_cfg ''bucket-a'' ''s3'' ''eu-north-1'' fresh = (Inr (), mounted)
   \<and> new_file mem_backend plain_codec s3_cfg ''bucket-a'' ''dir1'' True mounted =
       (Inl (HTTPError 400 ''The following error occured when creating the object: ''
               (Some (NotFoundError ''dir1''))),
        mounted\<lparr>s3_clients := [''eu-north-1''],
                world := \<lparr>objects = [((''s3://bucket-a/'', ''dir1/''), [], 0)], clock = 1\<rparr>,
                calls := [S3PutObject ''eu-north-1'' ''bucket-a'' ''dir1/'', ObsHead bucket_a ''dir1'']\<rparr>)
   \<and> get_contents mem_backend plain_codec s3_cfg ''bucket-a'' ''dir1''
         (snd (new_file mem_backend plain_codec s3_cfg ''bucket-a'' ''dir1'' True mounted)) =
       (Inr (Listing [\<lparr>e_path = ''dir1/'', e_last_modified = ''1970-01-01T00:00:00+00:00'',
                        e_size = 0\<rparr>]),
        mounted\<lparr>s3_clients := [''eu-north-1''],
                world := \<lparr>objects = [((''s3://bucket-a/'', ''dir1/''), [], 0)], clock = 1\<rparr>,
                calls := [S3PutObject ''eu-north-1'' ''bucket-a'' ''dir1/'', ObsHead bucket_a ''dir1'',
                          ObsList bucket_a ''dir1'']\<rparr>)"
proof -
  have l: "obs_list mem_backend (store \<lparr>store = bucket_a, location = ''eu-north-1''\<rparr>)
      (normalize_path ''dir1'')
      (world (mounted\<lparr>s3_clients := [''eu-north-1''],
              world := \<lparr>objects = [((''s3://bucket-a/'', ''dir1/''), [], 0)], clock = 1\<rparr>,
              calls := [S3PutObject ''eu-north-1'' ''bucket-a'' ''dir1/'', ObsHead bucket_a ''dir1'']\<rparr>)) =
    (Inr [[\<lparr>m_path = ''dir1/'', m_last_modified = 0, m_size = 0\<rparr>]],
     \<lparr>objects = [((''s3://bucket-a/'', ''dir1/''), [], 0)], clock = 1\<rparr>)"
    using list_after_marker by (simp add: strip_plain_dir1)
  have n: "concat [[\<lparr>m_path = ''dir1/'', m_last_modified = 0, m_size = 0\<rparr>]] \<noteq> []"
    by simp
  have "get_contents mem_backend plain_codec s3_cfg ''bucket-a'' ''dir1''
         (snd (new_file mem_backend plain_codec s3_cfg ''bucket-a'' ''dir1'' True mounted)) =
       (Inr (Listing [\<lparr>e_path = ''dir1/'', e_last_modified = ''1970-01-01T00:00:00+00:00'',
                        e_size = 0\<rparr>]),
        mounted\<lparr>s3_clients := [''eu-north-1''],
                world := \<lparr>objects = [((''s3://bucket-a/'', ''dir1/''), [], 0)], clock = 1\<rparr>,
                calls := [S3PutObject ''eu-north-1'' ''bucket-a'' ''dir1/'', ObsHead bucket_a ''dir1'',
                          ObsList bucket_a ''dir1'']\<rparr>)"
    unfolding new_file_plain_dir1 snd_conv
    using get_contents_listing [OF marked_binding l n, where L = plain_codec and cfg = s3_cfg]
    by (simp add: strip_plain_dir1 to_entry_def plain_codec_def)
  with mount_bucket_a new_file_plain_dir1 show ?thesis by blast
qed

section \<open>Normalization of the path before dispatch\<close>

text \<open>The operations read their \<open>path\<close> argument through its normal form only.\<close>

lemma ops_depend_on_normalized_path:
  "get_contents B L cfg d p = get_contents B L cfg d (normalize_path p)"
  "new_file B L cfg d p is_dir = new_file B L cfg d (normalize_path p) is_dir"
  "save_file B L d p content f1 f2 f3 = save_file B L d (normalize_path p) content f1 f2 f3"
  "rename_file B L d p new_path = rename_file B L d (normalize_path p) new_path"
  "delete_file B d p = delete_file B d (normalize_path p)"
  "check_file B d p = check_file B d (normalize_path p)"
  "copy_file B L d p to_path = copy_file B L d (normalize_path p) to_path"
  unfolding get_contents_def new_file_def save_file_def rename_file_def delete_file_def
    check_file_def copy_file_def strip_normalize normalize_idem
  by (rule refl)+

text \<open>Every step of an operation only appends to the log of issued calls.\<close>

lemma grow_ret: "prefix (calls s) (calls (snd (ret a s)))"
  by (simp add: ret_def)

lemma grow_raise: "prefix (calls s) (calls (snd (raise e s)))"
  by (simp add: raise_def)

lemma grow_resolve: "prefix (calls s) (calls (snd (resolve d s)))"
  by (simp add: resolve_def split: option.splits)

lemma grow_perform: "prefix (calls s) (calls (snd (perform c g s)))"
  by (simp add: perform_def split: prod.splits)

lemma grow_bind:
  assumes "\<And>s. prefix (calls s) (calls (snd (m s)))"
    and "\<And>a s. prefix (calls s) (calls (snd (f a s)))"
  shows "prefix (calls s) (calls (snd (bind m f s)))"
proof (cases "m s")
  case (Pair r s')
  show ?thesis
  proof (cases r)
    case (Inl e)
    with Pair assms(1) [of s] show ?thesis by (simp add: bind_def)
  next
    case (Inr a)
    with Pair assms(1) [of s] assms(2) [of s' a] show ?thesis
      by (auto simp: bind_def intro: prefix_order.trans)
  qed
qed

lemma snd_try_except: "snd (try_except code reason m s) = snd (m s)"
  by (simp add: try_except_def split: prod.splits sum.splits)

lemma grow_try_except:
  assumes "\<And>s. prefix (calls s) (calls (snd (m s)))"
  shows "prefix (calls s) (calls (snd (try_except code reason m s)))"
  using assms by (simp add: snd_try_except)

lemma grow_s3_client: "prefix (calls s) (calls (snd (s3_client cfg loc s)))"
  by (simp add: s3_client_def)

lemma grow_if:
  assumes "c \<Longrightarrow> prefix (calls s) (calls (snd (m1 s)))"
    and "\<not> c \<Longrightarrow> prefix (calls s) (calls (snd (m2 s)))"
  shows "prefix (calls s) (calls (snd ((if c then m1 else m2) s)))"
  using assms by simp

lemma grow_case_prod:
  assumes "\<And>a b. prefix (calls s) (calls (snd (f a b s)))"
  shows "prefix (calls s) (calls (snd ((case x of (a, b) \<Rightarrow> f a b) s)))"
  using assms by (simp split: prod.splits)

lemma grow_case_option:
  assumes "prefix (calls s) (calls (snd (m s)))"
    and "\<And>a. prefix (calls s) (calls (snd (f a s)))"
  shows "prefix (calls s) (calls (snd ((case x of None \<Rightarrow> m | Some a \<Rightarrow> f a) s)))"
  using assms by (simp split: option.splits)

lemma grow_case_sum:
  assumes "\<And>a. prefix (calls s) (calls (snd (f a s)))"
    and "\<And>a. prefix (calls s) (calls (snd (g a s)))"
  shows "prefix (calls s) (calls (snd ((case x of Inl a \<Rightarrow> f a | Inr a \<Rightarrow> g a) s)))"
  using assms by (simp split: sum.splits)

lemmas grow_intros = grow_bind grow_try_except grow_ret grow_raise grow_resolve grow_perform
  grow_s3_client grow_if grow_case_prod grow_case_option grow_case_sum

lemma grow_check_object: "prefix (calls s) (calls (snd (check_object B cfg d p s)))"
  unfolding check_object_def by (intro grow_intros)

lemma grow_read_object: "prefix (calls s) (calls (snd (read_object B L d p e s)))"
  unfolding read_object_def by (intro grow_intros)

lemma first_perform:
  assumes "\<And>a s. prefix (calls s) (calls (snd (f a s)))"
  shows "prefix (calls st @ [c]) (calls (snd (bind (perform c g) f st)))"
proof (cases "g (world st)")
  case (Pair r w')
  show ?thesis
  proof (cases r)
    case (Inl e)
    with Pair show ?thesis by (simp add: bind_def perform_def)
  next
    case (Inr a)
    with Pair assms [of "st\<lparr>world := w', calls := calls st @ [c]\<rparr>" a] show ?thesis
      by (simp add: bind_def perform_def)
  qed
qed

lemma bind_resolve:
  "content_managers st d = Some b \<Longrightarrow> bind (resolve d) f st = f b st"
  by (simp add: bind_def resolve_def)

lemma get_contents_first_call:
  assumes "content_managers st d = Some b"
  shows "prefix (calls st @ [ObsList (store b) (normalize_path p)])
           (calls (snd (get_contents B L cfg d p st)))"
  unfolding get_contents_def Let_def snd_try_except bind_resolve [OF assms]
  by (rule first_perform) (intro grow_intros grow_read_object grow_check_object)

lemma new_file_first_call:
  assumes "content_managers st d = Some b"
  shows "prefix (calls st @ [if is_dir = False \<or> provider cfg \<noteq> ''s3''
                             then ObsPut (store b) (normalize_path p) (Raw []) Overwrite
                             else S3PutObject (location b) d (normalize_path p @ ''/'')])
           (calls (snd (new_file B L cfg d p is_dir st)))"
  using assms
  by (simp add: new_file_def create_empty_directory_def s3_client_def io_defs normalize_path_strip
      split: prod.splits sum.splits)

lemma save_file_first_call:
  assumes "content_managers st d = Some b"
  shows "(case format_content L content f1 f2 f3 of
            Inl e \<Rightarrow> calls (snd (save_file B L d p content f1 f2 f3 st)) = calls st
          | Inr pl \<Rightarrow> prefix (calls st @ [ObsPut (store b) (normalize_path p) pl Overwrite])
                       (calls (snd (save_file B L d p content f1 f2 f3 st))))"
  using assms
  by (simp add: save_file_def io_defs normalize_path_strip split: prod.splits sum.splits)

lemma rename_file_first_call:
  assumes "content_managers st d = Some b"
  shows "prefix (calls st @ [ObsRename (store b) (normalize_path p) new_path])
           (calls (snd (rename_file B L d p new_path st)))"
  by (simp add: rename_file_bound [OF assms] normalize_path_strip split: prod.splits sum.splits)

lemma copy_file_first_call:
  assumes "content_managers st d = Some b"
  shows "prefix (calls st @ [ObsCopy (store b) (normalize_path p) to_path])
           (calls (snd (copy_file B L d p to_path st)))"
  by (simp add: copy_file_bound [OF assms] normalize_path_strip split: prod.splits sum.splits)

lemma delete_file_call:
  assumes "content_managers st d = Some b"
  shows "calls (snd (delete_file B d p st)) = calls st @ [ObsDelete (store b) (normalize_path p)]"
  by (simp add: delete_file_bound [OF assms] normalize_path_strip split: prod.splits sum.splits)

lemma check_file_call:
  assumes "content_managers st d = Some b"
  shows "calls (snd (check_file B d p st)) = calls st @ [ObsHead (store b) (normalize_path p)]"
  using assms
  by (simp add: check_file_def io_defs normalize_path_strip split: prod.splits sum.splits)

lemma strip_bare_a_txt: "strip_slash ''a.txt'' = ''a.txt''"
  by (simp add: strip_slash_def strip_where_def)

text \<open>
  C9, as stated, fails for the destination arguments: \<^verbatim>\<open>rename_file\<close> and
  \<^verbatim>\<open>copy_file\<close> hand \<open>new_path\<close> and \<open>to_path\<close> to the store as they come.  The
  destination \<open>/b/\<close>, whose normal form is \<open>b\<close>, reaches \<^verbatim>\<open>rename\<close>, \<^verbatim>\<open>copy\<close> and
  \<^verbatim>\<open>head\<close> with both slashes, and the object is stored under the key \<open>/b/\<close>.
\<close>

theorem destination_path_dispatched_verbatim_counterexample:
  "normalize_path ''/b/'' = ''b''
   \<and> rename_file mem_backend plain_codec ''bucket-a'' ''a.txt'' ''/b/'' stocked =
       (Inr \<lparr>i_path = ''/b/'', i_content = None,
             i_last_modified = ''1970-01-01T00:00:00+00:00'', i_size = 2\<rparr>,
        stocked\<lparr>world := \<lparr>objects = [((''s3://bucket-a/'', ''dir1/b.txt''), [1, 2, 3], 1),
                                        ((''s3://bucket-a/'', ''/b/''), [104, 105], 2)],
                            clock = 3\<rparr>,
                 calls := [ObsRename bucket_a ''a.txt'' ''/b/'', ObsHead bucket_a ''/b/'']\<rparr>)
   \<and> copy_file mem_backend plain_codec ''bucket-a'' ''a.txt'' ''/b/'' stocked =
       (Inr \<lparr>i_path = ''/b/'', i_content = None,
             i_last_modified = ''1970-01-01T00:00:00+00:00'', i_size = 2\<rparr>,
        stocked\<lparr>world := \<lparr>objects = [((''s3://bucket-a/'', ''a.txt''), [104, 105], 0),
                                        ((''s3://bucket-a/'', ''dir1/b.txt''), [1, 2, 3], 1),
                                        ((''s3://bucket-a/'', ''/b/''), [104, 105], 2)],
                            clock = 3\<rparr>,
                 calls := [ObsCopy bucket_a ''a.txt'' ''/b/'', ObsHead bucket_a ''/b/'']\<rparr>)"
proof -
  have "normalize_path ''/b/'' = ''b''"
    by (simp add: normalize_path_def strip_slash_def strip_where_def)
  moreover note rename_file_bound [OF stocked_binding, where B = mem_backend and L = plain_codec
      and p = "''a.txt''" and new_path = "''/b/''"]
    copy_file_bound [OF stocked_binding, where B = mem_backend and L = plain_codec
      and p = "''a.txt''" and to_path = "''/b/''"]
  ultimately show ?thesis
    by (simp add: strip_bare_a_txt mem_defs plain_codec_def stocked_def mounted_def fresh_def
        bucket_a_def)
qed

text \<open>
  C9, amended.  Normalization removes the leading and the trailing slashes and nothing
  else: every path is a run of slashes, its normal form, and a run of slashes, and the
  normal form neither starts nor ends with a slash.  The root path \<open>/\<close> becomes the empty
  string, normalizing twice is normalizing once, and \<open>/a/b/\<close>, \<open>a/b/\<close>, \<open>/a/b\<close> and
  \<open>a/b\<close> all become \<open>a/b\<close>; the special case for \<open>/\<close> in \<^verbatim>\<open>get_contents\<close> agrees
  with the plain \<^verbatim>\<open>strip('/')\<close> of the other operations.  The \<open>path\<close> argument of each
  of the seven content operations is normalized before anything is dispatched: each
  operation is the same function of a path and of its normal form, and on a mounted drive
  the first call issued to the store carries the normal form (for \<^verbatim>\<open>delete_file\<close> and
  \<^verbatim>\<open>check_file\<close> it is the only call; \<^verbatim>\<open>save_file\<close> issues none when the format conversion
  fails).  The destination arguments of \<^verbatim>\<open>rename_file\<close> and \<^verbatim>\<open>copy_file\<close> are not
  normalized.
\<close>

theorem path_normalized_before_dispatch:
  assumes "content_managers st d = Some b"
  shows "(\<exists>m n. p = replicate m CHR ''/'' @ normalize_path p @ replicate n CHR ''/'')
   \<and> \<not> prefix ''/'' (normalize_path p) \<and> \<not> suffix ''/'' (normalize_path p)
   \<and> normalize_path ''/'' = []
   \<and> normalize_path (normalize_path p) = normalize_path p
   \<and> normalize_path p = strip_slash p
   \<and> normalize_path ''/a/b/'' = ''a/b'' \<and> normalize_path ''a/b/'' = ''a/b''
   \<and> normalize_path ''/a/b'' = ''a/b'' \<and> normalize_path ''a/b'' = ''a/b''
   \<and> get_contents B L cfg d p = get_contents B L cfg d (normalize_path p)
   \<and> new_file B L cfg d p is_dir = new_file B L cfg d (normalize_path p) is_dir
   \<and> save_file B L d p content options_format content_format content_type
       = save_file B L d (normalize_path p) content options_format content_format content_type
   \<and> rename_file B L d p new_path = rename_file B L d (normalize_path p) new_path
   \<and> delete_file B d p = delete_file B d (normalize_path p)
   \<and> check_file B d p = check_file B d (normalize_path p)
   \<and> copy_file B L d p to_path = copy_file B L d (normalize_path p) to_path
   \<and> prefix (calls st @ [ObsList (store b) (normalize_path p)])
         (calls (snd (get_contents B L cfg d p st)))
   \<and> prefix (calls st @ [if is_dir = False \<or> provider cfg \<noteq> ''s3''
                           then ObsPut (store b) (normalize_path p) (Raw []) Overwrite
                           else S3PutObject (location b) d (normalize_path p @ ''/'')])
         (calls (snd (new_file B L cfg d p is_dir st)))
   \<and> (case format_content L content options_format content_format content_type of
         Inl e \<Rightarrow>
           calls (snd (save_file B L d p content options_format content_format content_type st))
             = calls st
       | Inr formatted \<Rightarrow>
           prefix (calls st @ [ObsPut (store b) (normalize_path p) formatted Overwrite])
             (calls (snd (save_file B L d p content options_format content_format content_type st))))
   \<and> prefix (calls st @ [ObsRename (store b) (normalize_path p) new_path])
         (calls (snd (rename_file B L d p new_path st)))
   \<and> calls (snd (delete_file B d p st)) = calls st @ [ObsDelete (store b) (normalize_path p)]
   \<and> calls (snd (check_file B d p st)) = calls st @ [ObsHead (store b) (normalize_path p)]
   \<and> prefix (calls st @ [ObsCopy (store b) (normalize_path p) to_path])
         (calls (snd (copy_file B L d p to_path st)))"
proof -
  have shape: "\<exists>m n. p = replicate m CHR ''/'' @ normalize_path p @ replicate n CHR ''/''"
    unfolding normalize_path_strip by (rule strip_slash_decomp)
  have lead: "\<not> prefix ''/'' (normalize_path p)"
    unfolding normalize_path_strip strip_slash_def
    by (auto simp: prefix_def dest: strip_where_no_lead)
  have trail: "\<not> suffix ''/'' (normalize_path p)"
    unfolding normalize_path_strip strip_slash_def
    by (auto simp: suffix_def dest: strip_where_no_trail)
  have ex: "normalize_path ''/'' = []" "normalize_path ''/a/b/'' = ''a/b''"
    "normalize_path ''a/b/'' = ''a/b''" "normalize_path ''/a/b'' = ''a/b''"
    "normalize_path ''a/b'' = ''a/b''"
    by (simp_all add: normalize_path_def strip_slash_def strip_where_def)
  note fn = shape lead trail ex normalize_idem normalize_path_strip
  note inv = ops_depend_on_normalized_path
  note disp = get_contents_first_call [OF assms] new_file_first_call [OF assms]
    save_file_first_call [OF assms] rename_file_first_call [OF assms]
    delete_file_call [OF assms] check_file_call [OF assms] copy_file_first_call [OF assms]
  show ?thesis
    by (intro conjI fn inv disp)
qed

lemma normalize_a_txt: "normalize_path ''/a.txt/'' = ''a.txt''"
  by (simp add: normalize_path_def strip_slash_def strip_where_def)

lemma format_hi:
  "format_content plain_codec (JStr ''hi'') ''text'' ''text'' ''file'' = Inr (Raw [104, 105])"
  by (simp add: format_content_def plain_codec_def)

theorem path_normalized_before_dispatch_witness:
  "content_managers stocked ''bucket-a'' = Some \<lparr>store = bucket_a, location = ''eu-north-1''\<rparr>
   \<and> normalize_path ''/a.txt/'' = ''a.txt''
   \<and> get_contents mem_backend plain_codec s3_cfg ''bucket-a'' ''/a.txt/''
       = get_contents mem_backend plain_codec s3_cfg ''bucket-a'' ''a.txt''
   \<and> prefix [ObsList bucket_a ''a.txt'']
         (calls (snd (get_contents mem_backend plain_codec s3_cfg ''bucket-a'' ''/a.txt/'' stocked)))
   \<and> prefix [ObsPut bucket_a ''a.txt'' (Raw []) Overwrite]
         (calls (snd (new_file mem_backend plain_codec s3_cfg ''bucket-a'' ''/a.txt/'' False stocked)))
   \<and> prefix [ObsPut bucket_a ''a.txt'' (Raw [104, 105]) Overwrite]
         (calls (snd (save_file mem_backend plain_codec ''bucket-a'' ''/a.txt/'' (JStr ''hi'')
            ''text'' ''text'' ''file'' stocked)))
   \<and> prefix [ObsRename bucket_a ''a.txt'' ''/b/'']
         (calls (snd (rename_file mem_backend plain_codec ''bucket-a'' ''/a.txt/'' ''/b/'' stocked)))
   \<and> calls (snd (delete_file mem_backend ''bucket-a'' ''/a.txt/'' stocked))
       = [ObsDelete bucket_a ''a.txt'']
   \<and> calls (snd (check_file mem_backend ''bucket-a'' ''/a.txt/'' stocked))
       = [ObsHead bucket_a ''a.txt'']
   \<and> prefix [ObsCopy bucket_a ''a.txt'' ''/b/'']
         (calls (snd (copy_file mem_backend plain_codec ''bucket-a'' ''/a.txt/'' ''/b/'' stocked)))"
proof -
  have c: "calls stocked = []"
    by (simp add: stocked_def mounted_def fresh_def)
  note t = path_normalized_before_dispatch [OF stocked_binding, where p = "''/a.txt/''"
      and B = mem_backend and L = plain_codec and cfg = s3_cfg and is_dir = False
      and content = "JStr ''hi''" and options_format = "''text''" and content_format = "''text''"
      and content_type = "''file''" and new_path = "''/b/''" and to_path = "''/b/''"]
  note same = t [THEN conjunct2, THEN conjunct2, THEN conjunct2, THEN conjunct2, THEN conjunct2, THEN conjunct2, THEN conjunct2, THEN conjunct2, THEN conjunct2, THEN conjunct2, THEN conjunct1]
  note sent = t [THEN conjunct2, THEN conjunct2, THEN conjunct2, THEN conjunct2, THEN conjunct2, THEN conjunct2, THEN conjunct2, THEN conjunct2, THEN conjunct2, THEN conjunct2, THEN conjunct2, THEN conjunct2, THEN conjunct2, THEN conjunct2, THEN conjunct2, THEN conjunct2, THEN conjunct2]
  from same have "get_contents mem_backend plain_codec s3_cfg ''bucket-a'' ''/a.txt/''
       = get_contents mem_backend plain_codec s3_cfg ''bucket-a'' ''a.txt''"
    by (simp only: normalize_a_txt)
  moreover from sent have
    "prefix [ObsList bucket_a ''a.txt'']
         (calls (snd (get_contents mem_backend plain_codec s3_cfg ''bucket-a'' ''/a.txt/'' stocked)))
   \<and> prefix [ObsPut bucket_a ''a.txt'' (Raw []) Overwrite]
         (calls (snd (new_file mem_backend plain_codec s3_cfg ''bucket-a'' ''/a.txt/'' False stocked)))
   \<and> prefix [ObsPut bucket_a ''a.txt'' (Raw [104, 105]) Overwrite]
         (calls (snd (save_file mem_backend plain_codec ''bucket-a'' ''/a.txt/'' (JStr ''hi'')
            ''text'' ''text'' ''file'' stocked)))
   \<and> prefix [ObsRename bucket_a ''a.txt'' ''/b/'']
         (calls (snd (rename_file mem_backend plain_codec ''bucket-a'' ''/a.txt/'' ''/b/'' stocked)))
   \<and> calls (snd (delete_file mem_backend ''bucket-a'' ''/a.txt/'' stocked))
       = [ObsDelete bucket_a ''a.txt'']
   \<and> calls (snd (check_file mem_backend ''bucket-a'' ''/a.txt/'' stocked))
       = [ObsHead bucket_a ''a.txt'']
   \<and> prefix [ObsCopy bucket_a ''a.txt'' ''/b/'']
         (calls (snd (copy_file mem_backend plain_codec ''bucket-a'' ''/a.txt/'' ''/b/'' stocked)))"
    by (simp add: normalize_a_txt c format_hi)
  ultimately show ?thesis
    using stocked_binding normalize_a_txt by blast
qed

section \<open>Credential checks of the provider client\<close>

text \<open>
  C8.  When the session token, the access key id or the secret access key is unset or
  empty, \<^verbatim>\<open>_call_provider\<close> fails at once with \<open>400 BAD_REQUEST\<close> and the message that
  names the first absent credential, in the order session token, access key id, secret
  access key.  Whatever the arguments, nothing is handed to \<open>fetch\<close>: the log of requests
  and the remote state are those before the call.
\<close>

theorem call_provider_missing_credentials:
  assumes "\<not> (truthy (session_token cfg) \<and> truthy (access_key_id cfg) \<and> truthy (secret_access_key cfg))"
  shows "call_provider (Suc fuel) H L cfg url load_json method body params headers has_pagination st =
     Some (Inl (HTTPError BAD_REQUEST
             (if \<not> truthy (session_token cfg) then
                ''No session token specified. Please set DriversConfig.session_token in your user jupyter_server_config file.''
              else if \<not> truthy (access_key_id cfg) then
                ''No access key id specified. Please set DriversConfig.access_key_id in your user jupyter_server_config file.''
              else
                ''No secret access key specified. Please set DriversConfig.secret_access_key in your user jupyter_server_config file.'')
             None), st)"
  using assms by (auto simp: missing_credential_def)

theorem call_provider_missing_credentials_witness:
  "\<not> (truthy (session_token (sim_cfg\<lparr>session_token := None\<rparr>))
       \<and> truthy (access_key_id (sim_cfg\<lparr>session_token := None\<rparr>))
       \<and> truthy (secret_access_key (sim_cfg\<lparr>session_token := None\<rparr>)))
   \<and> call_provider 1 sim_http plain_codec (sim_cfg\<lparr>session_token := None\<rparr>) ''items'' True ''GET''
         None None None True idle =
       Some (Inl (HTTPError 400
               ''No session token specified. Please set DriversConfig.session_token in your user jupyter_server_config file.''
               None), idle)
   \<and> \<not> (truthy (session_token (sim_cfg\<lparr>secret_access_key := Some []\<rparr>))
       \<and> truthy (access_key_id (sim_cfg\<lparr>secret_access_key := Some []\<rparr>))
       \<and> truthy (secret_access_key (sim_cfg\<lparr>secret_access_key := Some []\<rparr>)))
   \<and> call_provider 1 sim_http plain_codec (sim_cfg\<lparr>secret_access_key := Some []\<rparr>) ''items'' True
         ''GET'' None None None True idle =
       Some (Inl (HTTPError 400
               ''No secret access key specified. Please set DriversConfig.secret_access_key in your user jupyter_server_config file.''
               None), idle)"
proof -
  have a: "\<not> (truthy (session_token (sim_cfg\<lparr>session_token := None\<rparr>))
       \<and> truthy (access_key_id (sim_cfg\<lparr>session_token := None\<rparr>))
       \<and> truthy (secret_access_key (sim_cfg\<lparr>session_token := None\<rparr>)))"
    by simp
  have b: "\<not> (truthy (session_token (sim_cfg\<lparr>secret_access_key := Some []\<rparr>))
       \<and> truthy (access_key_id (sim_cfg\<lparr>secret_access_key := Some []\<rparr>))
       \<and> truthy (secret_access_key (sim_cfg\<lparr>secret_access_key := Some []\<rparr>)))"
    by simp
  from call_provider_missing_credentials [OF a, of 0 sim_http plain_codec "''items''" True "''GET''"
      None None None True idle]
    call_provider_missing_credentials [OF b, of 0 sim_http plain_codec "''items''" True "''GET''"
      None None None True idle]
    a b
  show ?thesis
    by (simp add: sim_cfg_def s3_cfg_def BAD_REQUEST_def)
qed

section \<open>Following the next links\<close>

lemma build_request_next:
  "build_request H cfg u True method None None headers False
     = (next_request H cfg method headers u, False)"
  by (simp add: next_request_def build_request_def Let_def)

lemma build_request_first:
  "str_lower H method = ''get'' \<Longrightarrow>
   build_request H cfg url True method None params headers True
     = (first_request H cfg url method params headers, True)"
  by (simp add: first_request_def build_request_def Let_def)

lemma next_request_sel:
  "rq_body (next_request H cfg method headers u) = None"
  "rq_headers (next_request H cfg method headers u) = headers"
  by (simp_all add: next_request_def build_request_def Let_def)

lemma first_request_sel:
  "rq_body (first_request H cfg url method params headers) = None"
  "rq_headers (first_request H cfg url method params headers) = headers"
  by (simp_all add: first_request_def build_request_def Let_def)

lemma page_items_triple: "page_items (rq, rs, page) = as_list page"
  by (cases page) (simp_all add: page_items_def)

text \<open>The calls on the next links: the last page comes back as it is, not wrapped.\<close>

lemma call_provider_follow:
  assumes "missing_credential cfg = None"
  shows "linked H L (next_request H cfg method headers) (next_request H cfg method headers u)
           pages (remote st) w'
     \<Longrightarrow> length pages \<le> fuel
     \<Longrightarrow> \<exists>r. call_provider fuel H L cfg u True method None None headers False st
                = Some (Inr r, st\<lparr>remote := w', sent := sent st @ map fst pages\<rparr>)
              \<and> as_list r = concat (map page_items pages)"
proof (induction pages arbitrary: u st fuel)
  case Nil
  then show ?case by simp
next
  case (Cons p rest)
  obtain rq rs page where p: "p = (rq, rs, page)"
    by (cases p)
  from Cons.prems(2) obtain k where fuel: "fuel = Suc k" and k: "length rest \<le> k"
    by (cases fuel) auto
  let ?rq = "next_request H cfg method headers u"
  from Cons.prems(1) p have rq: "rq = ?rq"
    by simp
  from Cons.prems(1) p obtain w1 where f: "fetch H ?rq (remote st) = (Inr rs, w1)"
    and dec: "Option.bind (utf8_decode L (rs_body rs)) (json_loads H) = Some page"
    and nx: "(case next_link (rs_link rs) of
                Inl e \<Rightarrow> False
              | Inr None \<Rightarrow> rest = [] \<and> w' = w1
              | Inr (Some u') \<Rightarrow>
                  linked H L (next_request H cfg method headers)
                    (next_request H cfg method headers u') rest w1 w')"
    by (auto split: prod.splits sum.splits)
  from dec obtain result where res: "utf8_decode L (rs_body rs) = Some result"
    and js: "json_loads H result = Some page"
    by (auto simp: bind_eq_Some_conv)
  let ?st1 = "st\<lparr>remote := w1, sent := sent st @ [?rq]\<rparr>"
  show ?case
  proof (cases "next_link (rs_link rs)")
    case (Inl e)
    with nx show ?thesis by simp
  next
    case (Inr nu)
    show ?thesis
    proof (cases nu)
      case None
      with Inr nx have "rest = []" and "w' = w1"
        by simp_all
      with None Inr show ?thesis
        by (simp add: fuel assms build_request_next f res js p rq page_items_triple)
    next
      case (Some u')
      with Inr nx have "linked H L (next_request H cfg method headers)
          (next_request H cfg method headers u') rest (remote ?st1) w'"
        by simp
      from Cons.IH [OF this k] obtain r where
        r: "call_provider k H L cfg u' True method None None headers False ?st1
              = Some (Inr r, ?st1\<lparr>remote := w', sent := sent ?st1 @ map fst rest\<rparr>)"
        and items: "as_list r = concat (map page_items rest)"
        by blast
      from r Some Inr items show ?thesis
        by (simp add: fuel assms build_request_next next_request_sel f res js p rq page_items_triple)
    qed
  qed
qed

lemma as_list_wrap: "(if \<not> is_list j then JList [j] else j) = JList (as_list j)"
  by (cases j) simp_all

text \<open>The first call: the result is a sequence whatever the pages are.\<close>

lemma call_provider_pages:
  assumes "truthy (session_token cfg)" and "truthy (access_key_id cfg)"
    and "truthy (secret_access_key cfg)"
    and "str_lower H method = ''get''"
    and "linked H L (next_request H cfg method headers)
           (first_request H cfg url method params headers) pages (remote st) w'"
    and "length pages \<le> fuel"
  shows "call_provider fuel H L cfg url True method None params headers True st =
     Some (Inr (JList (concat (map page_items pages))),
           st\<lparr>remote := w', sent := sent st @ map fst pages\<rparr>)"
proof (cases pages)
  case Nil
  with assms(5) show ?thesis by simp
next
  case (Cons p rest)
  have creds: "missing_credential cfg = None"
    using assms(1-3) by (simp add: missing_credential_def)
  obtain rq rs page where p: "p = (rq, rs, page)"
    by (cases p)
  from assms(6) Cons obtain k where fuel: "fuel = Suc k" and k: "length rest \<le> k"
    by (cases fuel) auto
  let ?rq = "first_request H cfg url method params headers"
  from assms(5) Cons p have rq: "rq = ?rq"
    by simp
  from assms(5) Cons p obtain w1 where f: "fetch H ?rq (remote st) = (Inr rs, w1)"
    and dec: "Option.bind (utf8_decode L (rs_body rs)) (json_loads H) = Some page"
    and nx: "(case next_link (rs_link rs) of
                Inl e \<Rightarrow> False
              | Inr None \<Rightarrow> rest = [] \<and> w' = w1
              | Inr (Some u') \<Rightarrow>
                  linked H L (next_request H cfg method headers)
                    (next_request H cfg method headers u') rest w1 w')"
    by (auto split: prod.splits sum.splits)
  from dec obtain result where res: "utf8_decode L (rs_body rs) = Some result"
    and js: "json_loads H result = Some page"
    by (auto simp: bind_eq_Some_conv)
  let ?st1 = "st\<lparr>remote := w1, sent := sent st @ [?rq]\<rparr>"
  show ?thesis
  proof (cases "next_link (rs_link rs)")
    case (Inl e)
    with nx show ?thesis by simp
  next
    case (Inr nu)
    show ?thesis
    proof (cases nu)
      case None
      with Inr nx have "rest = []" and "w' = w1"
        by simp_all
      with None Inr show ?thesis
        by (simp add: fuel creds build_request_first [OF assms(4)] f res js p rq Cons
            page_items_triple as_list_wrap)
    next
      case (Some u')
      with Inr nx have "linked H L (next_request H cfg method headers)
          (next_request H cfg method headers u') rest (remote ?st1) w'"
        by simp
      from call_provider_follow [OF creds this k] obtain r where
        r: "call_provider k H L cfg u' True method None None headers False ?st1
              = Some (Inr r, ?st1\<lparr>remote := w', sent := sent ?st1 @ map fst rest\<rparr>)"
        and items: "as_list r = concat (map page_items rest)"
        by blast
      from r Some Inr items show ?thesis
        by (simp add: fuel creds build_request_first [OF assms(4)] first_request_sel f res js p rq
            Cons page_items_triple)
    qed
  qed
qed

text \<open>
  The parser of the header on a header of the specification's form: it finds the URL of
  the first token whose relation is \<open>next\<close>.
\<close>

lemma split_on_plain: "sep \<notin> set a \<Longrightarrow> split_on sep a = [a]"
  by (induction a) auto

lemma split_on_append: "sep \<notin> set a \<Longrightarrow> split_on sep (a @ sep # b) = a # split_on sep b"
  by (induction a) auto

lemma strip_where_ends:
  assumes "\<not> P x" and "\<not> P (last (x # xs))"
  shows "strip_where P (x # xs) = x # xs"
proof -
  have "rev (x # xs) \<noteq> []" by simp
  then obtain y ys where r: "rev (x # xs) = y # ys"
    by (cases "rev (x # xs)") auto
  then have "y = last (x # xs)"
    by (metis hd_rev list.sel(1))
  with assms(2) r have "dropWhile P (rev (x # xs)) = rev (x # xs)"
    by simp
  with assms(1) show ?thesis
    by (simp add: strip_where_def)
qed

lemma strip_where_lead: "P a \<Longrightarrow> strip_where P (a # s) = strip_where P s"
  by (simp add: strip_where_def)

lemma dropWhile_none: "\<forall>x\<in>set xs. \<not> P x \<Longrightarrow> dropWhile P xs = xs"
  by (cases xs) auto

lemma strip_where_wrapped:
  assumes "P q" and "\<forall>x\<in>set r. \<not> P x"
  shows "strip_where P (q # r @ [q]) = r"
proof (cases r)
  case Nil
  with assms(1) show ?thesis
    by (simp add: strip_where_def)
next
  case (Cons x xs)
  with assms have 1: "dropWhile P (q # r @ [q]) = r @ [q]"
    by simp
  have "dropWhile P (rev r) = rev r"
    using assms(2) by (intro dropWhile_none) simp
  with assms(1) have 2: "dropWhile P (rev (r @ [q])) = rev r"
    by simp
  show ?thesis
    unfolding strip_where_def 1 2 by simp
qed

lemma strip_quote_quoted:
  assumes "CHR 0x22 \<notin> set r"
  shows "strip_quote (quoted r) = r"
  using strip_where_wrapped [where P = "\<lambda>c. c = CHR 0x22" and q = "CHR 0x22" and r = r] assms
  by (auto simp: strip_quote_def quoted_def)

lemma link_token_iff:
  "link_token (u, r) =
     (CHR '','' \<notin> set u \<and> CHR '';'' \<notin> set u \<and> CHR '','' \<notin> set r \<and> CHR '';'' \<notin> set r
      \<and> CHR ''='' \<notin> set r \<and> CHR 0x22 \<notin> set r)"
  by (auto simp: link_token_def list_all_iff)

lemma entry_no_comma:
  assumes "link_token (u, r)"
  shows "CHR '','' \<notin> set (link_entry (u, r))"
  using assms by (simp add: link_token_iff link_entry_def quoted_def)

lemma strip_space_entry: "strip_space (link_entry (u, r)) = link_entry (u, r)"
  unfolding strip_space_def link_entry_def quoted_def
  by (simp add: strip_where_ends is_space_def)

lemma strip_space_spaced_entry:
  "strip_space (CHR '' '' # link_entry (u, r)) = link_entry (u, r)"
  using strip_space_entry [of u r]
  by (simp add: strip_space_def strip_where_lead is_space_def)

lemma split_entry:
  assumes "link_token (u, r)"
  shows "split_on CHR '';'' (link_entry (u, r)) = [''<'' @ u @ ''>'', '' rel='' @ quoted r]"
proof -
  have a: "CHR '';'' \<notin> set (''<'' @ u @ ''>'')"
    using assms by (simp add: link_token_iff)
  have b: "CHR '';'' \<notin> set ('' rel='' @ quoted r)"
    using assms by (simp add: link_token_iff quoted_def)
  have "link_entry (u, r) = (''<'' @ u @ ''>'') @ CHR '';'' # ('' rel='' @ quoted r)"
    by (simp add: link_entry_def)
  then show ?thesis
    by (simp only: split_on_append [OF a] split_on_plain [OF b])
qed

lemma metadata_entry:
  assumes "link_token (u, r)"
  shows "link_metadata ['' rel='' @ quoted r] = Inr [(''rel'', r)]"
proof -
  have s: "strip_space ('' rel='' @ quoted r) = ''rel='' @ quoted r"
  proof -
    have "strip_space (''rel='' @ quoted r) = ''rel='' @ quoted r"
      unfolding strip_space_def quoted_def by (simp add: strip_where_ends is_space_def)
    then show ?thesis
      by (simp add: strip_space_def strip_where_lead is_space_def)
  qed
  have a: "CHR ''='' \<notin> set ''rel''"
    by simp
  have b: "CHR ''='' \<notin> set (quoted r)"
    using assms by (simp add: link_token_iff quoted_def)
  have "''rel='' @ quoted r = ''rel'' @ CHR ''='' # quoted r"
    by simp
  then have sp: "split_on CHR ''='' (''rel='' @ quoted r) = [''rel'', quoted r]"
    by (simp only: split_on_append [OF a] split_on_plain [OF b])
  have k: "strip_space ''rel'' = ''rel''"
    by (simp add: strip_space_def strip_where_def is_space_def)
  have v: "strip_quote (strip_space (quoted r)) = r"
  proof -
    have "strip_space (quoted r) = quoted r"
      unfolding strip_space_def quoted_def by (simp add: strip_where_ends is_space_def)
    with assms show ?thesis
      by (simp add: strip_quote_quoted link_token_iff)
  qed
  show ?thesis
    by (simp add: s [unfolded append.simps] split_on_plain [OF b] k v)
qed

lemma loop_entry:
  assumes "link_token (u, r)" and "strip_space s = link_entry (u, r)"
  shows "next_link_loop (s # ss) = (if r = ''next'' then Inr (Some u) else next_link_loop ss)"
  using assms(2)
  by (simp add: split_entry [OF assms(1)] metadata_entry [OF assms(1), unfolded append.simps]
      del: link_metadata.simps)

lemma loop_spaced_entries:
  assumes "list_all link_token es"
  shows "next_link_loop (map (\<lambda>e. CHR '' '' # link_entry e) es) = Inr (next_of es)"
  using assms
proof (induction es)
  case Nil
  then show ?case by (simp add: next_of_def)
next
  case (Cons e es)
  obtain u r where e: "e = (u, r)"
    by (cases e)
  with Cons.prems have t: "link_token (u, r)" and rest: "list_all link_token es"
    by simp_all
  from loop_entry [OF t strip_space_spaced_entry] Cons.IH [OF rest] e show ?case
    by (simp add: next_of_def)
qed

lemma split_header:
  assumes "list_all link_token (e # es)"
  shows "split_on CHR '','' (link_header (e # es))
           = link_entry e # map (\<lambda>e. CHR '' '' # link_entry e) es"
  using assms
proof (induction es arbitrary: e)
  case Nil
  obtain u r where "e = (u, r)"
    by (cases e)
  with Nil show ?case
    by (simp add: split_on_plain entry_no_comma)
next
  case (Cons e' es)
  obtain u r where e: "e = (u, r)"
    by (cases e)
  with Cons.prems have c: "CHR '','' \<notin> set (link_entry e)"
    by (simp add: entry_no_comma)
  from Cons.prems have rest: "list_all link_token (e' # es)"
    by simp
  have "link_header (e # e' # es) = link_entry e @ CHR '','' # (CHR '' '' # link_header (e' # es))"
    by simp
  then have "split_on CHR '','' (link_header (e # e' # es))
      = link_entry e # split_on CHR '','' (CHR '' '' # link_header (e' # es))"
    by (simp only: split_on_append [OF c])
  also have "split_on CHR '','' (CHR '' '' # link_header (e' # es))
      = (CHR '' '' # link_entry e') # map (\<lambda>e. CHR '' '' # link_entry e) es"
    using Cons.IH [OF rest] by simp
  finally show ?case
    by simp
qed

lemma next_link_header:
  assumes "list_all link_token es"
  shows "next_link (Some (link_header es)) = Inr (next_of es)"
proof (cases es)
  case Nil
  then show ?thesis
    by (simp add: next_link_def next_of_def strip_space_def strip_where_def)
next
  case (Cons e rest)
  obtain u r where e: "e = (u, r)"
    by (cases e)
  from assms Cons e have t: "link_token (u, r)" and r: "list_all link_token rest"
    by simp_all
  from assms Cons have "split_on CHR '','' (link_header es)
      = link_entry e # map (\<lambda>e. CHR '' '' # link_entry e) rest"
    by (simp only: split_header)
  then show ?thesis
    using loop_entry [OF t strip_space_entry] loop_spaced_entries [OF r] e Cons
    by (simp add: next_link_def next_of_def)
qed

text \<open>
  C2.  Credentials being set, a paginated JSON \<^verbatim>\<open>GET\<close> without body whose answers form a
  chain of pages linked by \<open>rel="next"\<close> returns the items of all the pages, concatenated
  in the order of the chain, a page that is not a sequence counting as one item.  Each
  page is requested exactly once and in order: the first with the page-size argument, the
  following ones at the URL of the next link, without query arguments.  The call returns
  as soon as the number of calls allowed reaches the number of pages.  The next link of a
  response without \<^verbatim>\<open>Link\<close> header is absent; that of a header made of
  \<open><url>; rel="relation"\<close> tokens is the URL of the first token whose relation is
  \<open>next\<close>.
\<close>

theorem call_provider_follows_next_links:
  assumes "truthy (session_token cfg)" and "truthy (access_key_id cfg)"
    and "truthy (secret_access_key cfg)"
    and "str_lower H method = ''get''"
    and "linked H L (next_request H cfg method headers)
           (first_request H cfg url method params headers) pages (remote st) w'"
    and "length pages \<le> fuel"
    and "list_all link_token entries"
  shows "call_provider fuel H L cfg url True method None params headers True st =
     Some (Inr (JList (concat (map page_items pages))),
           st\<lparr>remote := w', sent := sent st @ map fst pages\<rparr>)
   \<and> first_request H cfg url method params headers =
       \<lparr>rq_url = url_concat H (absolute_url H cfg url)
                  (dict_set ''per_page'' ''100'' (case params of None \<Rightarrow> [] | Some ps \<Rightarrow> ps)),
        rq_method = str_upper H method, rq_body = None, rq_headers = headers\<rparr>
   \<and> next_request H cfg method headers u =
       \<lparr>rq_url = absolute_url H cfg u, rq_method = str_upper H method, rq_body = None,
        rq_headers = headers\<rparr>
   \<and> next_link None = Inr None
   \<and> next_link (Some (link_header entries)) = Inr (next_of entries)"
proof -
  have "first_request H cfg url method params headers =
       \<lparr>rq_url = url_concat H (absolute_url H cfg url)
                  (dict_set ''per_page'' ''100'' (case params of None \<Rightarrow> [] | Some ps \<Rightarrow> ps)),
        rq_method = str_upper H method, rq_body = None, rq_headers = headers\<rparr>"
    using assms(4) by (simp add: first_request_def build_request_def Let_def)
  moreover have "next_request H cfg method headers u =
       \<lparr>rq_url = absolute_url H cfg u, rq_method = str_upper H method, rq_body = None,
        rq_headers = headers\<rparr>"
    by (simp add: next_request_def build_request_def Let_def)
  moreover have "next_link None = Inr None"
    by (simp add: next_link_def)
  moreover note next_link_header [OF assms(7)]
    call_provider_pages [OF assms(1-6)]
  ultimately show ?thesis
    by (intro conjI)
qed

text \<open>The three pages of the simulated provider, as the parser of the header reads them.\<close>

lemma link_page1: "next_link (rs_link page1) = Inr (Some ''https://h/items?page=2'')"
  by (simp add: page1_def link_entry_def quoted_def next_link_def strip_space_def strip_quote_def
      strip_where_def is_space_def)

lemma link_page2: "next_link (rs_link page2) = Inr (Some ''https://h/items?page=3'')"
  by (simp add: page2_def link_entry_def quoted_def next_link_def strip_space_def strip_quote_def
      strip_where_def is_space_def)

lemma link_page3: "next_link (rs_link page3) = Inr None"
  by (simp add: page3_def link_entry_def quoted_def next_link_def strip_space_def strip_quote_def
      strip_where_def is_space_def)

lemma decode_pages:
  "Option.bind (utf8_decode plain_codec (rs_body page1)) (json_loads sim_http)
     = Some (JList [JNum 1, JNum 2])"
  "Option.bind (utf8_decode plain_codec (rs_body page2)) (json_loads sim_http) = Some (JNum 3)"
  "Option.bind (utf8_decode plain_codec (rs_body page3)) (json_loads sim_http)
     = Some (JList [JNum 4])"
  by (simp_all add: page1_def page2_def page3_def plain_codec_def sim_http_def char_of_def bit_0)

lemma sim_first_request:
  "first_request sim_http sim_cfg ''items'' ''GET'' None None
     = get_items ''https://h/items?per_page=100''"
  by (simp add: first_request_def build_request_def absolute_url_def sim_http_def sim_cfg_def
      s3_cfg_def get_items_def Let_def)

lemma sim_next_request:
  "next_request sim_http sim_cfg ''GET'' None ''https://h/items?page=2''
     = get_items ''https://h/items?page=2''"
  "next_request sim_http sim_cfg ''GET'' None ''https://h/items?page=3''
     = get_items ''https://h/items?page=3''"
  by (simp_all add: next_request_def build_request_def absolute_url_def sim_http_def sim_cfg_def
      s3_cfg_def get_items_def Let_def)

lemma sim_fetch:
  "fetch sim_http (get_items ''https://h/items?per_page=100'') n = (Inr page1, Suc n)"
  "fetch sim_http (get_items ''https://h/items?page=2'') n = (Inr page2, Suc n)"
  "fetch sim_http (get_items ''https://h/items?page=3'') n = (Inr page3, Suc n)"
  by (simp_all add: sim_http_def get_items_def)

lemma sim_linked:
  "linked sim_http plain_codec (next_request sim_http sim_cfg ''GET'' None)
     (first_request sim_http sim_cfg ''items'' ''GET'' None None)
     [(get_items ''https://h/items?per_page=100'', page1, JList [JNum 1, JNum 2]),
      (get_items ''https://h/items?page=2'', page2, JNum 3),
      (get_items ''https://h/items?page=3'', page3, JList [JNum 4])]
     (remote idle) 3"
  by (simp add: sim_first_request sim_next_request sim_fetch link_page1 link_page2 link_page3
      decode_pages idle_def)

lemma sim_credentials:
  "truthy (session_token sim_cfg)" "truthy (access_key_id sim_cfg)"
  "truthy (secret_access_key sim_cfg)"
  by (simp_all add: sim_cfg_def s3_cfg_def)

lemma sim_lower: "str_lower sim_http ''GET'' = ''get''"
  by (simp add: sim_http_def)

lemma sim_tokens:
  "list_all link_token [(''https://h/items?page=1'', ''prev''), (''https://h/items?page=3'', ''next'')]"
  by (simp add: link_token_def)

theorem call_provider_follows_next_links_witness:
  "truthy (session_token sim_cfg) \<and> truthy (access_key_id sim_cfg)
   \<and> truthy (secret_access_key sim_cfg)
   \<and> str_lower sim_http ''GET'' = ''get''
   \<and> linked sim_http plain_codec (next_request sim_http sim_cfg ''GET'' None)
       (first_request sim_http sim_cfg ''items'' ''GET'' None None)
       [(get_items ''https://h/items?per_page=100'', page1, JList [JNum 1, JNum 2]),
        (get_items ''https://h/items?page=2'', page2, JNum 3),
        (get_items ''https://h/items?page=3'', page3, JList [JNum 4])]
       (remote idle) 3
   \<and> list_all link_token [(''https://h/items?page=1'', ''prev''), (''https://h/items?page=3'', ''next'')]
   \<and> call_provider 3 sim_http plain_codec sim_cfg ''items'' True ''GET'' None None None True idle =
       Some (Inr (JList [JNum 1, JNum 2, JNum 3, JNum 4]),
             \<lparr>remote = 3,
              sent = [get_items ''https://h/items?per_page=100'',
                      get_items ''https://h/items?page=2'',
                      get_items ''https://h/items?page=3'']\<rparr>)
   \<and> next_link (rs_link page2) = Inr (Some ''https://h/items?page=3'')"
proof -
  have fuel: "length [(get_items ''https://h/items?per_page=100'', page1, JList [JNum 1, JNum 2]),
        (get_items ''https://h/items?page=2'', page2, JNum 3),
        (get_items ''https://h/items?page=3'', page3, JList [JNum 4])] \<le> (3 :: nat)"
    by simp
  note t = call_provider_follows_next_links [OF sim_credentials sim_lower sim_linked fuel sim_tokens]
  from t [THEN conjunct1]
  have "call_provider 3 sim_http plain_codec sim_cfg ''items'' True ''GET'' None None None True idle =
       Some (Inr (JList [JNum 1, JNum 2, JNum 3, JNum 4]),
             \<lparr>remote = 3,
              sent = [get_items ''https://h/items?per_page=100'',
                      get_items ''https://h/items?page=2'',
                      get_items ''https://h/items?page=3'']\<rparr>)"
    by (simp add: page_items_def idle_def)
  moreover from t [THEN conjunct2, THEN conjunct2, THEN conjunct2, THEN conjunct2]
  have "next_link (rs_link page2) = Inr (Some ''https://h/items?page=3'')"
    by (simp add: page2_def next_of_def)
  ultimately show ?thesis
    using sim_credentials sim_lower sim_linked sim_tokens by blast
qed

end
